theory Spec2Isabelle
  imports Main
begin

section \<open>The Okta authentication flow of saml2aws (okta.go)\<close>

text \<open>
  The development embeds \<^verbatim>\<open>OktaClient.Authenticate\<close> and \<^verbatim>\<open>parseMfaIdentifer\<close>.
  The function talks to the outside world (an HTTP client, two interactive prompts, the
  clock, standard output); the model makes the world an explicit parameter and records
  every interaction in a trace, so that the order and the content of the requests are
  part of the result.
\<close>

subsection \<open>Strings\<close>

text \<open>
  Go strings are byte sequences; they are modelled by \<open>string\<close>.
  \<^verbatim>\<open>strings.ToUpper\<close> maps every Unicode letter to its upper case. It is not defined
  here: it is a parameter of the world (see below), and what is proved holds for every
  such function. On ASCII text it maps the bytes \<open>a\<close> to \<open>z\<close> to \<open>A\<close> to \<open>Z\<close> and keeps
  every other byte; this restriction is \<open>ToUpper_ASCII\<close>, which only the scripted worlds
  use, on ASCII text.
\<close>

definition upper_byte :: "char \<Rightarrow> char" where
  "upper_byte c =
     (let n = (of_char c :: nat)
      in if 97 \<le> n \<and> n \<le> 122 then char_of (n - 32) else c)"

definition ToUpper_ASCII :: "string \<Rightarrow> string" where
  "ToUpper_ASCII s = map upper_byte s"

text \<open>
  \<^verbatim>\<open>strings.Split(s, sep)\<close> for a separator of one byte: the substrings between the
  separators, so the result has one element more than there are separators in \<open>s\<close>.
\<close>

fun Split :: "string \<Rightarrow> char \<Rightarrow> string list" where
  "Split [] sep = ['''']"
| "Split (c # cs) sep =
     (if c = sep then [] # Split cs sep
      else (case Split cs sep of
              [] \<Rightarrow> [c] # []
            | w # ws \<Rightarrow> (c # w) # ws))"

text \<open>Indexing a Go slice panics out of range.\<close>

definition index :: "'a list \<Rightarrow> nat \<Rightarrow> 'a option" where
  "index xs i = (if i < length xs then Some (xs ! i) else None)"

text \<open>The verb \<^verbatim>\<open>%d\<close> of \<^verbatim>\<open>fmt.Sprintf\<close> on a non-negative int.\<close>

definition digit_char :: "nat \<Rightarrow> char" where
  "digit_char d = char_of (48 + d)"

function Sprintf_d :: "nat \<Rightarrow> string" where
  "Sprintf_d n =
     (if n < 10 then [digit_char n]
      else Sprintf_d (n div 10) @ [digit_char (n mod 10)])"
  by pat_completeness auto
termination
  by (relation "measure id") auto

declare Sprintf_d.simps [simp del]

subsection \<open>JSON documents and the gjson queries\<close>

text \<open>
  A response body is modelled by the JSON value it denotes. A number carries the text
  that \<^verbatim>\<open>Result.String\<close> renders it as, an array and an object carry their raw text,
  which is what \<^verbatim>\<open>Result.String\<close> returns for them.
\<close>

datatype json =
    JNull
  | JTrue
  | JFalse
  | JNumber string
  | JString string
  | JArray string "json list"
  | JObject string "(string \<times> json) list"

text \<open>
  An array index in a gjson path is a non-empty run of decimal digits.
\<close>

definition digit_val :: "char \<Rightarrow> nat option" where
  "digit_val c =
     (let n = (of_char c :: nat)
      in if 48 \<le> n \<and> n \<le> 57 then Some (n - 48) else None)"

fun parse_digits :: "nat \<Rightarrow> string \<Rightarrow> nat option" where
  "parse_digits n [] = Some n"
| "parse_digits n (c # cs) =
     (case digit_val c of
        None \<Rightarrow> None
      | Some d \<Rightarrow> parse_digits (n * 10 + d) cs)"

definition parseUint :: "string \<Rightarrow> nat option" where
  "parseUint s = (if s = [] then None else parse_digits 0 s)"

text \<open>
  One component of a path: a member of an object by its key (the first one of that
  name), an element of an array by its index; nothing in any other value.
\<close>

fun path_step :: "json \<Rightarrow> string \<Rightarrow> json option" where
  "path_step (JObject raw kvs) p = map_of kvs p"
| "path_step (JArray raw xs) p =
     (case parseUint p of
        None \<Rightarrow> None
      | Some n \<Rightarrow> index xs n)"
| "path_step _ p = None"

text \<open>
  \<^verbatim>\<open>gjson.Get(json, path)\<close> for the dot-separated paths of the program, given as the
  list of their components. \<open>None\<close> is the result that does not exist.
\<close>

fun gjson_Get :: "json \<Rightarrow> string list \<Rightarrow> json option" where
  "gjson_Get j [] = Some j"
| "gjson_Get j (p # ps) =
     (case path_step j p of
        None \<Rightarrow> None
      | Some v \<Rightarrow> gjson_Get v ps)"

text \<open>\<^verbatim>\<open>Result.String\<close>: the empty string for a missing or null result.\<close>

fun gjson_String :: "json option \<Rightarrow> string" where
  "gjson_String None = []"
| "gjson_String (Some JNull) = []"
| "gjson_String (Some JTrue) = ''true''"
| "gjson_String (Some JFalse) = ''false''"
| "gjson_String (Some (JNumber s)) = s"
| "gjson_String (Some (JString s)) = s"
| "gjson_String (Some (JArray raw xs)) = raw"
| "gjson_String (Some (JObject raw kvs)) = raw"

text \<open>
  \<^verbatim>\<open>Result.Array\<close>: empty for a missing or null result, the elements of an array,
  and a one-element array holding the result otherwise.
\<close>

fun gjson_Array :: "json option \<Rightarrow> json list" where
  "gjson_Array None = []"
| "gjson_Array (Some JNull) = []"
| "gjson_Array (Some (JArray raw xs)) = xs"
| "gjson_Array (Some j) = [j]"

subsection \<open>Errors\<close>

text \<open>
  A Go \<^verbatim>\<open>error\<close> value is \<open>error option\<close>, with \<open>None\<close> for \<^verbatim>\<open>nil\<close>.
  \<^verbatim>\<open>errors.Wrap(err, message)\<close> of the package \<^verbatim>\<open>github.com/pkg/errors\<close> annotates
  \<open>err\<close> with the message, and returns \<^verbatim>\<open>nil\<close> when \<open>err\<close> is \<^verbatim>\<open>nil\<close>.
\<close>

datatype error = Cause string | WithMessage error string

fun Wrap :: "error option \<Rightarrow> string \<Rightarrow> error option" where
  "Wrap None message = None"
| "Wrap (Some err) message = Some (WithMessage err message)"

text \<open>
  The result of a call of \<^verbatim>\<open>Authenticate\<close>: the pair it returns, or a run-time panic.
\<close>

datatype outcome = Return string "error option" | Panic

subsection \<open>Requests, responses and the world\<close>

text \<open>
  The three structs of the program. A request body is the struct that is encoded as
  JSON, or the \<^verbatim>\<open>url.Values\<close> that are encoded as a form, in the order of the calls of
  \<^verbatim>\<open>Add\<close>. The field \<open>PassCode\<close> is tagged \<^verbatim>\<open>omitempty\<close>: a verify request whose
  \<open>PassCode\<close> is empty is encoded with the state token only.
\<close>

record LoginDetails =
  Username :: string
  Password :: string
  Hostname :: string

record AuthRequest =
  username :: string
  password :: string

record VerifyRequest =
  StateToken :: string
  PassCode :: string

type_synonym Values = "(string \<times> string) list"

datatype body = NoBody | AuthJSON AuthRequest | VerifyJSON VerifyRequest | Form Values

record request =
  Method :: string
  URL :: string
  RawQuery :: Values
  Header :: Values
  Body :: body

text \<open>What \<^verbatim>\<open>url.Parse\<close> finds in a URL, as far as the program reads it.\<close>

record parsed_url =
  Host :: string
  Query :: Values

text \<open>
  An HTML document is the sequence of its elements in document order, each with its tag
  and attributes. A response offers its body as the JSON value read by
  \<^verbatim>\<open>ioutil.ReadAll\<close> (with the error of the read) and as the document parsed by
  \<^verbatim>\<open>goquery.NewDocumentFromResponse\<close>.
\<close>

record node =
  Tag :: string
  Attr :: Values

record response =
  ReadAll :: "json \<times> error option"
  NewDocumentFromResponse :: "error + node list"

text \<open>The interactions of a run, in the order in which they happen.\<close>

datatype event =
    Do request
  | Choose string "string list"
  | StringRequired string
  | Sleep nat
  | Println string

text \<open>
  The world: the URL parser, the HTTP client (whose answer may depend on everything that
  happened before), the two prompts, \<^verbatim>\<open>html.UnescapeString\<close> and
  \<^verbatim>\<open>strings.ToUpper\<close>.
\<close>

record env =
  url_Parse :: "string \<Rightarrow> error + parsed_url"
  client_Do :: "event list \<Rightarrow> request \<Rightarrow> error + response"
  prompt_Choose :: "string \<Rightarrow> string list \<Rightarrow> nat"
  prompt_StringRequired :: "string \<Rightarrow> string"
  html_UnescapeString :: "string \<Rightarrow> string"
  strings_ToUpper :: "string \<Rightarrow> string"

text \<open>\<^verbatim>\<open>http.NewRequest\<close> fails exactly when the URL does not parse.\<close>

definition NewRequest :: "env \<Rightarrow> string \<Rightarrow> string \<Rightarrow> body \<Rightarrow> error + request" where
  "NewRequest env m u b =
     (case url_Parse env u of
        Inl err \<Rightarrow> Inl err
      | Inr pu \<Rightarrow> Inr \<lparr>Method = m, URL = u, RawQuery = Query pu, Header = [], Body = b\<rparr>)"

definition Header_Add :: "request \<Rightarrow> string \<Rightarrow> string \<Rightarrow> request" where
  "Header_Add req k v = req\<lparr>Header := Header req @ [(k, v)]\<rparr>"

definition Query_Add :: "request \<Rightarrow> string \<Rightarrow> string \<Rightarrow> request" where
  "Query_Add req k v = req\<lparr>RawQuery := RawQuery req @ [(k, v)]\<rparr>"

text \<open>
  \<^verbatim>\<open>doc.Find("input[name=\"...\"]").Attr("value")\<close>: the \<open>value\<close> attribute of the
  first \<open>input\<close> element with that name, if that element has one.
\<close>

definition Find_input :: "node list \<Rightarrow> string \<Rightarrow> node list" where
  "Find_input doc name =
     filter (\<lambda>n. Tag n = ''input'' \<and> map_of (Attr n) ''name'' = Some name) doc"

definition Attr_value :: "node list \<Rightarrow> string option" where
  "Attr_value sel = (case sel of [] \<Rightarrow> None | n # ns \<Rightarrow> map_of (Attr n) ''value'')"

subsection \<open>The supported factors\<close>

definition IdentifierDuoMfa :: string where
  "IdentifierDuoMfa = ''DUO WEB''"

definition IdentifierSmsMfa :: string where
  "IdentifierSmsMfa = ''OKTA SMS''"

definition IdentifierTotpMfa :: string where
  "IdentifierTotpMfa = ''GOOGLE TOKEN:SOFTWARE:TOTP''"

definition supportedMfaOptions :: "string \<rightharpoonup> string" where
  "supportedMfaOptions =
     map_of [(IdentifierDuoMfa, ''DUO MFA authentication''),
             (IdentifierSmsMfa, ''SMS MFA authentication''),
             (IdentifierTotpMfa, ''TOTP MFA authentication'')]"

definition parseMfaIdentifer :: "env \<Rightarrow> json \<Rightarrow> nat \<Rightarrow> string" where
  "parseMfaIdentifer env json arrayPosition =
     (let mfaProvider = gjson_String (gjson_Get json
            [''_embedded'', ''factors'', Sprintf_d arrayPosition, ''provider'']);
          factorType = strings_ToUpper env (gjson_String (gjson_Get json
            [''_embedded'', ''factors'', Sprintf_d arrayPosition, ''factorType'']))
      in mfaProvider @ '' '' @ factorType)"

subsection \<open>Session token exchange and extraction of the assertion (lines 382 to 413)\<close>

text \<open>
  At the last return, \<open>err\<close> is the error of \<^verbatim>\<open>NewDocumentFromResponse\<close>, which is
  \<^verbatim>\<open>nil\<close> there.
\<close>

definition session_redirect ::
  "env \<Rightarrow> string \<Rightarrow> string \<Rightarrow> json \<Rightarrow> event list \<Rightarrow> outcome \<times> event list" where
  "session_redirect env oktaOrgHost oktaEntryURL resp tr =
     (let oktaSessionToken = gjson_String (gjson_Get resp [''sessionToken'']);
          oktaSessionRedirectURL = ''https://'' @ oktaOrgHost @ ''/login/sessionCookieRedirect''
      in case NewRequest env ''GET'' oktaSessionRedirectURL NoBody of
           Inl err \<Rightarrow>
             (Return [] (Wrap (Some err) ''error building authentication request''), tr)
         | Inr req0 \<Rightarrow>
             (let req = Query_Add (Query_Add (Query_Add req0
                          ''checkAccountSetupComplete'' ''true'')
                          ''token'' oktaSessionToken)
                          ''redirectUrl'' oktaEntryURL
              in case client_Do env tr req of
                   Inl err \<Rightarrow>
                     (Return [] (Wrap (Some err) ''error retrieving verify response''),
                      tr @ [Do req])
                 | Inr res \<Rightarrow>
                     (case NewDocumentFromResponse res of
                        Inl err \<Rightarrow>
                          (Return [] (Wrap (Some err) ''error parsing document''),
                           tr @ [Do req])
                      | Inr doc \<Rightarrow>
                          (case Attr_value (Find_input doc ''SAMLResponse'') of
                             None \<Rightarrow>
                               (Return [] (Wrap None ''unable to locate saml response''),
                                tr @ [Do req])
                           | Some samlAssertion \<Rightarrow>
                               (Return samlAssertion None, tr @ [Do req])))))"

subsection \<open>The Duo branch (lines 181 to 378)\<close>

text \<open>
  The parts of the branch are defined last part first, each one continuing with the
  next. The local variables that a later part reads are its arguments.
\<close>

text \<open>
  Lines 339 to 378: the callback to Okta with the cookie, then the verify request that
  fetches the session token.
\<close>

definition duo_callback ::
  "env \<Rightarrow> string \<Rightarrow> string \<Rightarrow> string \<Rightarrow> string \<Rightarrow> string \<Rightarrow> string \<Rightarrow> string list
     \<Rightarrow> string \<Rightarrow> event list \<Rightarrow> outcome \<times> event list" where
  "duo_callback env oktaOrgHost oktaEntryURL stateToken factorID oktaVerify duoCallback
       duoSiguatres duoTxCookie tr =
     (case index duoSiguatres 1 of
        None \<Rightarrow> (Panic, tr)
      | Some app \<Rightarrow>
          (let oktaForm = [(''id'', factorID), (''stateToken'', stateToken),
                           (''sig_response'', duoTxCookie @ '':'' @ app)]
           in case NewRequest env ''POST'' duoCallback (Form oktaForm) of
                Inl err \<Rightarrow>
                  (Return [] (Wrap (Some err) ''error building authentication request''), tr)
              | Inr req0 \<Rightarrow>
                  (let req = Header_Add req0 ''Content-Type''
                               ''application/x-www-form-urlencoded''
                   in case client_Do env tr req of
                        Inl err \<Rightarrow>
                          (Return [] (Wrap (Some err) ''error retrieving verify response''),
                           tr @ [Do req])
                      | Inr res \<Rightarrow>
                          (let tr1 = tr @ [Do req];
                               verifyReq = \<lparr>StateToken = stateToken, PassCode = []\<rparr>
                           in case NewRequest env ''POST'' oktaVerify (VerifyJSON verifyReq) of
                                Inl err \<Rightarrow>
                                  (Return [] (Wrap (Some err) ''error building verify request''),
                                   tr1)
                              | Inr vreq0 \<Rightarrow>
                                  (let vreq = Header_Add (Header_Add (Header_Add vreq0
                                                ''Content-Type'' ''application/json'')
                                                ''Accept'' ''application/json'')
                                                ''X-Okta-XsrfToken'' []
                                   in case client_Do env tr1 vreq of
                                        Inl err \<Rightarrow>
                                          (Return []
                                             (Wrap (Some err) ''error retrieving verify response''),
                                           tr1 @ [Do vreq])
                                      | Inr vres \<Rightarrow>
                                          session_redirect env oktaOrgHost oktaEntryURL
                                            (fst (ReadAll vres)) (tr1 @ [Do vreq]))))))"

text \<open>
  Lines 306 to 336: the poll loop. It ends with a return of the function (\<open>Inl\<close>) or
  with a \<^verbatim>\<open>break\<close> that leaves the cookie in \<open>duoTxCookie\<close> (\<open>Inr\<close>); a loop that
  runs forever is \<open>None\<close>. At the return for \<^verbatim>\<open>FAILURE\<close>, \<open>err\<close> is the error of
  \<^verbatim>\<open>ioutil.ReadAll\<close>.
\<close>

partial_function (option) duo_poll ::
  "env \<Rightarrow> string \<Rightarrow> Values \<Rightarrow> event list \<Rightarrow> ((outcome + string) \<times> event list) option" where
  "duo_poll env duoSubmitURL duoForm tr =
     (let tr1 = tr @ [Sleep 3]
      in case NewRequest env ''POST'' duoSubmitURL (Form duoForm) of
           Inl err \<Rightarrow>
             Some (Inl (Return [] (Wrap (Some err) ''error building authentication request'')),
                   tr1)
         | Inr req0 \<Rightarrow>
             (let req = Header_Add req0 ''Content-Type'' ''application/x-www-form-urlencoded''
              in case client_Do env tr1 req of
                   Inl err \<Rightarrow>
                     Some (Inl (Return [] (Wrap (Some err) ''error retrieving verify response'')),
                           tr1 @ [Do req])
                 | Inr res \<Rightarrow>
                     (let resp = fst (ReadAll res);
                          err = snd (ReadAll res);
                          duoTxResult = gjson_String (gjson_Get resp [''response'', ''result'']);
                          duoTxCookie = gjson_String (gjson_Get resp [''response'', ''cookie'']);
                          tr2 = tr1 @ [Do req,
                                  Println (gjson_String (gjson_Get resp [''response'', ''status'']))]
                      in if duoTxResult = ''FAILURE''
                         then Some (Inl (Return [] (Wrap err ''failed to authenticate device'')),
                                    tr2)
                         else if duoTxResult = ''SUCCESS''
                         then Some (Inr duoTxCookie, tr2)
                         else duo_poll env duoSubmitURL duoForm tr2)))"

declare duo_poll.simps [code]

text \<open>Lines 277 to 337: the first status request, and the loop unless it succeeded.\<close>

definition duo_status ::
  "env \<Rightarrow> string \<Rightarrow> string \<Rightarrow> string \<Rightarrow> string \<Rightarrow> string \<Rightarrow> string \<Rightarrow> string list
     \<Rightarrow> string \<Rightarrow> string \<Rightarrow> string \<Rightarrow> event list \<Rightarrow> (outcome \<times> event list) option" where
  "duo_status env oktaOrgHost oktaEntryURL stateToken factorID oktaVerify duoCallback
       duoSiguatres duoHost duoSID duoTxID tr =
     (let duoSubmitURL = ''https://'' @ duoHost @ ''/frame/status'';
          duoForm = [(''sid'', duoSID), (''txid'', duoTxID)]
      in case NewRequest env ''POST'' duoSubmitURL (Form duoForm) of
           Inl err \<Rightarrow>
             Some (Return [] (Wrap (Some err) ''error building authentication request''), tr)
         | Inr req0 \<Rightarrow>
             (let req = Header_Add req0 ''Content-Type'' ''application/x-www-form-urlencoded''
              in case client_Do env tr req of
                   Inl err \<Rightarrow>
                     Some (Return [] (Wrap (Some err) ''error retrieving verify response''),
                           tr @ [Do req])
                 | Inr res \<Rightarrow>
                     (let resp = fst (ReadAll res);
                          duoTxResult = gjson_String (gjson_Get resp [''response'', ''result'']);
                          duoTxCookie = gjson_String (gjson_Get resp [''response'', ''cookie'']);
                          tr1 = tr @ [Do req,
                                  Println (gjson_String (gjson_Get resp [''response'', ''status'']))]
                      in if duoTxResult \<noteq> ''SUCCESS''
                         then (case duo_poll env duoSubmitURL duoForm tr1 of
                                 None \<Rightarrow> None
                               | Some (Inl out, tr2) \<Rightarrow> Some (out, tr2)
                               | Some (Inr cookie, tr2) \<Rightarrow>
                                   Some (duo_callback env oktaOrgHost oktaEntryURL stateToken
                                           factorID oktaVerify duoCallback duoSiguatres cookie tr2))
                         else Some (duo_callback env oktaOrgHost oktaEntryURL stateToken
                                      factorID oktaVerify duoCallback duoSiguatres
                                      duoTxCookie tr1))))"

text \<open>
  Lines 228 to 275: the choice between passcode and push, and the prompt request.
  At the return for a \<open>stat\<close> other than \<open>OK\<close>, \<open>err\<close> is the error of
  \<^verbatim>\<open>ioutil.ReadAll\<close>.
\<close>

definition duo_prompt ::
  "env \<Rightarrow> string \<Rightarrow> string \<Rightarrow> string \<Rightarrow> string \<Rightarrow> string \<Rightarrow> string \<Rightarrow> string list
     \<Rightarrow> string \<Rightarrow> string \<Rightarrow> event list \<Rightarrow> (outcome \<times> event list) option" where
  "duo_prompt env oktaOrgHost oktaEntryURL stateToken factorID oktaVerify duoCallback
       duoSiguatres duoHost duoSID tr =
     (let duoMfaOptions = [''Passcode'', ''Duo Push''];
          duoMfaOption = prompt_Choose env ''Select a DUO MFA Option'' duoMfaOptions;
          tr1 = tr @ [Choose ''Select a DUO MFA Option'' duoMfaOptions]
      in case index duoMfaOptions duoMfaOption of
           None \<Rightarrow> Some (Panic, tr1)
         | Some factor \<Rightarrow>
             (let token = (if factor = ''Passcode''
                           then prompt_StringRequired env ''Enter passcode'' else []);
                  tr2 = (if factor = ''Passcode''
                         then tr1 @ [StringRequired ''Enter passcode''] else tr1);
                  duoSubmitURL = ''https://'' @ duoHost @ ''/frame/prompt'';
                  duoForm = [(''sid'', duoSID), (''device'', ''phone1''), (''factor'', factor),
                             (''out_of_date'', ''false'')]
                            @ (if factor = ''Passcode'' then [(''passcode'', token)] else [])
              in case NewRequest env ''POST'' duoSubmitURL (Form duoForm) of
                   Inl err \<Rightarrow>
                     Some (Return [] (Wrap (Some err) ''error building authentication request''),
                           tr2)
                 | Inr req0 \<Rightarrow>
                     (let req = Header_Add req0 ''Content-Type''
                                  ''application/x-www-form-urlencoded''
                      in case client_Do env tr2 req of
                           Inl err \<Rightarrow>
                             Some (Return [] (Wrap (Some err) ''error retrieving verify response''),
                                   tr2 @ [Do req])
                         | Inr res \<Rightarrow>
                             (let resp = fst (ReadAll res);
                                  err = snd (ReadAll res);
                                  duoTxStat = gjson_String (gjson_Get resp [''stat'']);
                                  duoTxID = gjson_String (gjson_Get resp [''response'', ''txid''])
                              in if duoTxStat \<noteq> ''OK''
                                 then Some (Return [] (Wrap err ''error authenticating mfa device''),
                                            tr2 @ [Do req])
                                 else duo_status env oktaOrgHost oktaEntryURL stateToken factorID
                                        oktaVerify duoCallback duoSiguatres duoHost duoSID duoTxID
                                        (tr2 @ [Do req])))))"

text \<open>
  Lines 181 to 226: the signatures, and the request that starts the Duo session.
  At the return for a missing \<open>sid\<close>, \<open>err\<close> is the error of
  \<^verbatim>\<open>NewDocumentFromResponse\<close>, which is \<^verbatim>\<open>nil\<close> there.
\<close>

definition duo_auth ::
  "env \<Rightarrow> string \<Rightarrow> string \<Rightarrow> string \<Rightarrow> string \<Rightarrow> string \<Rightarrow> json \<Rightarrow> event list
     \<Rightarrow> (outcome \<times> event list) option" where
  "duo_auth env oktaOrgHost oktaEntryURL stateToken factorID oktaVerify resp tr =
     (let duoHost = gjson_String (gjson_Get resp
            [''_embedded'', ''factor'', ''_embedded'', ''verification'', ''host'']);
          duoSignature = gjson_String (gjson_Get resp
            [''_embedded'', ''factor'', ''_embedded'', ''verification'', ''signature'']);
          duoSiguatres = Split duoSignature CHR '':'';
          duoCallback = gjson_String (gjson_Get resp
            [''_embedded'', ''factor'', ''_embedded'', ''verification'', ''_links'',
             ''complete'', ''href'']);
          duoSubmitURL = ''https://'' @ duoHost @ ''/frame/web/v1/auth'';
          duoForm = [(''parent'', ''https://'' @ oktaOrgHost @ ''/signin/verify/duo/web''),
                     (''java_version'', []), (''java_version'', []), (''flash_version'', []),
                     (''screen_resolution_width'', ''3008''),
                     (''screen_resolution_height'', ''1692''), (''color_depth'', ''24'')]
      in case NewRequest env ''POST'' duoSubmitURL (Form duoForm) of
           Inl err \<Rightarrow>
             Some (Return [] (Wrap (Some err) ''error building authentication request''), tr)
         | Inr req0 \<Rightarrow>
             (case index duoSiguatres 0 of
                None \<Rightarrow> Some (Panic, tr)
              | Some tx \<Rightarrow>
                  (let req = Header_Add (Query_Add req0 ''tx'' tx) ''Content-Type''
                               ''application/x-www-form-urlencoded''
                   in case client_Do env tr req of
                        Inl err \<Rightarrow>
                          Some (Return [] (Wrap (Some err) ''error retrieving verify response''),
                                tr @ [Do req])
                      | Inr res \<Rightarrow>
                          (case NewDocumentFromResponse res of
                             Inl err \<Rightarrow>
                               Some (Return [] (Wrap (Some err) ''error parsing document''),
                                     tr @ [Do req])
                           | Inr doc \<Rightarrow>
                               (case Attr_value (Find_input doc ''sid'') of
                                  None \<Rightarrow>
                                    Some (Return [] (Wrap None ''unable to locate saml response''),
                                          tr @ [Do req])
                                | Some sid \<Rightarrow>
                                    duo_prompt env oktaOrgHost oktaEntryURL stateToken factorID
                                      oktaVerify duoCallback duoSiguatres duoHost
                                      (html_UnescapeString env sid) (tr @ [Do req]))))))"

subsection \<open>The SMS and TOTP branch (lines 159 to 179)\<close>

definition token_post ::
  "env \<Rightarrow> string \<Rightarrow> string \<Rightarrow> string \<Rightarrow> string \<Rightarrow> event list \<Rightarrow> outcome \<times> event list" where
  "token_post env oktaOrgHost oktaEntryURL stateToken oktaVerify tr =
     (let verifyCode = prompt_StringRequired env ''Enter verification code'';
          tr1 = tr @ [StringRequired ''Enter verification code''];
          tokenReq = \<lparr>StateToken = stateToken, PassCode = verifyCode\<rparr>
      in case NewRequest env ''POST'' oktaVerify (VerifyJSON tokenReq) of
           Inl err \<Rightarrow>
             (Return [] (Wrap (Some err) ''error building token post request''), tr1)
         | Inr req0 \<Rightarrow>
             (let req = Header_Add (Header_Add req0
                          ''Content-Type'' ''application/json'')
                          ''Accept'' ''application/json''
              in case client_Do env tr1 req of
                   Inl err \<Rightarrow>
                     (Return [] (Wrap (Some err) ''error retrieving token post response''),
                      tr1 @ [Do req])
                 | Inr res \<Rightarrow>
                     session_redirect env oktaOrgHost oktaEntryURL
                       (fst (ReadAll res)) (tr1 @ [Do req])))"

subsection \<open>Verification of the chosen factor (lines 137 to 180)\<close>

text \<open>
  The first verify request carries the state token only. The \<^verbatim>\<open>switch\<close> has no
  default case: an identifier that matches no case falls through to the session token
  exchange.
\<close>

definition mfa_verify ::
  "env \<Rightarrow> string \<Rightarrow> string \<Rightarrow> string \<Rightarrow> string \<Rightarrow> string \<Rightarrow> string \<Rightarrow> event list
     \<Rightarrow> (outcome \<times> event list) option" where
  "mfa_verify env oktaOrgHost oktaEntryURL stateToken factorID oktaVerify mfaIdentifer tr =
     (let verifyReq = \<lparr>StateToken = stateToken, PassCode = []\<rparr>
      in case NewRequest env ''POST'' oktaVerify (VerifyJSON verifyReq) of
           Inl err \<Rightarrow>
             Some (Return [] (Wrap (Some err) ''error building verify request''), tr)
         | Inr req0 \<Rightarrow>
             (let req = Header_Add (Header_Add req0
                          ''Content-Type'' ''application/json'')
                          ''Accept'' ''application/json''
              in case client_Do env tr req of
                   Inl err \<Rightarrow>
                     Some (Return [] (Wrap (Some err) ''error retrieving verify response''),
                           tr @ [Do req])
                 | Inr res \<Rightarrow>
                     (let resp = fst (ReadAll res);
                          tr1 = tr @ [Do req]
                      in if mfaIdentifer = IdentifierSmsMfa \<or> mfaIdentifer = IdentifierTotpMfa
                         then Some (token_post env oktaOrgHost oktaEntryURL stateToken
                                      oktaVerify tr1)
                         else if mfaIdentifer = IdentifierDuoMfa
                         then duo_auth env oktaOrgHost oktaEntryURL stateToken factorID
                                oktaVerify resp tr1
                         else Some (session_redirect env oktaOrgHost oktaEntryURL resp tr1))))"

subsection \<open>Selection of the factor (lines 113 to 135)\<close>

text \<open>Lines 116 to 124: one label for each element of the factor list, in its order.\<close>

definition mfaOptions :: "env \<Rightarrow> json \<Rightarrow> string list" where
  "mfaOptions env resp =
     map (\<lambda>i. let identifier = parseMfaIdentifer env resp i
               in case supportedMfaOptions identifier of
                    Some val \<Rightarrow> val
                  | None \<Rightarrow> ''UNSUPPORTED: '' @ identifier)
         [0 ..< length (gjson_Array (gjson_Get resp [''_embedded'', ''factors'']))]"

text \<open>
  Lines 129 to 135, for the chosen index \<open>mfaOption\<close>. At the return for an
  unsupported factor, \<open>err\<close> is the error of the \<^verbatim>\<open>ioutil.ReadAll\<close> that read the
  authentication response.
\<close>

definition mfa_selected ::
  "env \<Rightarrow> string \<Rightarrow> string \<Rightarrow> string \<Rightarrow> json \<Rightarrow> error option \<Rightarrow> nat \<Rightarrow> event list
     \<Rightarrow> (outcome \<times> event list) option" where
  "mfa_selected env oktaOrgHost oktaEntryURL stateToken resp err mfaOption tr =
     (let factorID = gjson_String (gjson_Get resp
            [''_embedded'', ''factors'', Sprintf_d mfaOption, ''id'']);
          oktaVerify = gjson_String (gjson_Get resp
            [''_embedded'', ''factors'', Sprintf_d mfaOption, ''_links'', ''verify'', ''href'']);
          mfaIdentifer = parseMfaIdentifer env resp mfaOption
      in case supportedMfaOptions mfaIdentifer of
           None \<Rightarrow> Some (Return [] (Wrap err ''unsupported mfa provider''), tr)
         | Some label \<Rightarrow>
             mfa_verify env oktaOrgHost oktaEntryURL stateToken factorID oktaVerify
               mfaIdentifer tr)"

text \<open>Lines 115 to 127: the chooser is asked when there is more than one label.\<close>

definition factor_prompt :: string where
  "factor_prompt = ''Select which MFA option to use''"

definition mfa_select ::
  "env \<Rightarrow> string \<Rightarrow> string \<Rightarrow> string \<Rightarrow> json \<Rightarrow> error option \<Rightarrow> event list
     \<Rightarrow> (outcome \<times> event list) option" where
  "mfa_select env oktaOrgHost oktaEntryURL stateToken resp err tr =
     (if length (mfaOptions env resp) > 1
      then mfa_selected env oktaOrgHost oktaEntryURL stateToken resp err
             (prompt_Choose env factor_prompt (mfaOptions env resp))
             (tr @ [Choose factor_prompt (mfaOptions env resp)])
      else mfa_selected env oktaOrgHost oktaEntryURL stateToken resp err 0 tr)"

subsection \<open>Authenticate (lines 79 to 111)\<close>

text \<open>
  The error of the first \<^verbatim>\<open>url.Parse\<close> is not checked: when it fails, the URL is
  \<^verbatim>\<open>nil\<close> and reading its host panics.
\<close>

definition Authenticate :: "env \<Rightarrow> LoginDetails \<Rightarrow> (outcome \<times> event list) option" where
  "Authenticate env loginDetails =
     (let oktaEntryURL = ''https://'' @ Hostname loginDetails
      in case url_Parse env oktaEntryURL of
           Inl err \<Rightarrow> Some (Panic, [])
         | Inr oktaURL \<Rightarrow>
             (let oktaOrgHost = Host oktaURL;
                  authReq = \<lparr>username = Username loginDetails,
                             password = Password loginDetails\<rparr>;
                  authSubmitURL = ''https://'' @ oktaOrgHost @ ''/api/v1/authn''
              in case NewRequest env ''POST'' authSubmitURL (AuthJSON authReq) of
                   Inl err \<Rightarrow>
                     Some (Return [] (Wrap (Some err) ''error building authentication request''),
                           [])
                 | Inr req0 \<Rightarrow>
                     (let req = Header_Add (Header_Add req0
                                  ''Content-Type'' ''application/json'')
                                  ''Accept'' ''application/json''
                      in case client_Do env [] req of
                           Inl err \<Rightarrow>
                             Some (Return [] (Wrap (Some err) ''error retrieving auth response''),
                                   [Do req])
                         | Inr res \<Rightarrow>
                             (let resp = fst (ReadAll res);
                                  err = snd (ReadAll res);
                                  stateToken = gjson_String (gjson_Get resp [''stateToken'']);
                                  authStatus = gjson_String (gjson_Get resp [''status''])
                              in if authStatus = ''MFA_REQUIRED''
                                 then mfa_select env oktaOrgHost oktaEntryURL stateToken resp err
                                        [Do req]
                                 else Some (session_redirect env oktaOrgHost oktaEntryURL resp
                                              [Do req])))))"

subsection \<open>Observations on traces\<close>

text \<open>The requests of a trace, in their order.\<close>

fun requests :: "event list \<Rightarrow> request list" where
  "requests [] = []"
| "requests (Do r # es) = r # requests es"
| "requests (e # es) = requests es"

fun is_factor_choice :: "event \<Rightarrow> bool" where
  "is_factor_choice (Choose p opts) = (p = factor_prompt)"
| "is_factor_choice e = False"

fun is_Sleep :: "event \<Rightarrow> bool" where
  "is_Sleep (Sleep n) = True"
| "is_Sleep e = False"

text \<open>The values that a form body gives to a key.\<close>

definition form_values :: "request \<Rightarrow> string \<Rightarrow> string list" where
  "form_values r k =
     (case Body r of
        Form f \<Rightarrow> map snd (filter (\<lambda>kv. fst kv = k) f)
      | _ \<Rightarrow> [])"

text \<open>
  The state tokens that a request carries: the field of a verify request, the
  \<open>stateToken\<close> values of a form.
\<close>

definition state_tokens :: "request \<Rightarrow> string list" where
  "state_tokens r =
     (case Body r of
        VerifyJSON v \<Rightarrow> [StateToken v]
      | _ \<Rightarrow> form_values r ''stateToken'')"

text \<open>
  A request respects the state token \<open>st\<close> when every state token it carries is \<open>st\<close>,
  and when it carries \<open>st\<close> if it is the completion callback (the request with a
  \<open>sig_response\<close>).
\<close>

definition token_ok :: "string \<Rightarrow> request \<Rightarrow> bool" where
  "token_ok st r =
     (list_all (\<lambda>t. t = st) (state_tokens r) \<and>
      (form_values r ''sig_response'' \<noteq> [] \<longrightarrow> state_tokens r = [st]))"

text \<open>
  The cookie of the status response that a trace ends with: the trace ends with a
  request and the line printed for its response, and the world tells the response.
\<close>

definition last_cookie :: "env \<Rightarrow> event list \<Rightarrow> string option" where
  "last_cookie env tr =
     (case rev tr of
        Println s # Do req # before \<Rightarrow>
          (case client_Do env (rev before) req of
             Inl err \<Rightarrow> None
           | Inr res \<Rightarrow>
               Some (gjson_String (gjson_Get (fst (ReadAll res)) [''response'', ''cookie''])))
      | _ \<Rightarrow> None)"

text \<open>
  An event that follows the events \<open>pre\<close> is right about the signature when every
  \<open>sig_response\<close> that it sends is the cookie of the status response just before it, a
  colon, and the application signature \<open>app\<close>.
\<close>

definition sig_response_ok :: "env \<Rightarrow> string \<Rightarrow> event list \<Rightarrow> event \<Rightarrow> bool" where
  "sig_response_ok env app pre e =
     (case e of
        Do r \<Rightarrow>
          list_all (\<lambda>v. case last_cookie env pre of
                           None \<Rightarrow> False
                         | Some c \<Rightarrow> v = c @ '':'' @ app)
            (form_values r ''sig_response'')
      | _ \<Rightarrow> True)"

text \<open>\<open>events_ok Q pre es\<close>: every event of \<open>es\<close> satisfies \<open>Q\<close> after what came before it.\<close>

fun events_ok :: "(event list \<Rightarrow> event \<Rightarrow> bool) \<Rightarrow> event list \<Rightarrow> event list \<Rightarrow> bool" where
  "events_ok Q pre [] = True"
| "events_ok Q pre (e # es) = (Q pre e \<and> events_ok Q (pre @ [e]) es)"

text \<open>What holds of every event after the selection of the factor.\<close>

definition flow_event :: "string \<Rightarrow> event \<Rightarrow> bool" where
  "flow_event st e =
     (case e of
        Do r \<Rightarrow> token_ok st r
      | Choose p opts \<Rightarrow> p \<noteq> factor_prompt
      | _ \<Rightarrow> True)"

definition later_event :: "env \<Rightarrow> string \<Rightarrow> string \<Rightarrow> event list \<Rightarrow> event \<Rightarrow> bool" where
  "later_event env st app pre e = (sig_response_ok env app pre e \<and> flow_event st e)"

definition plain_form :: "Values \<Rightarrow> bool" where
  "plain_form f = list_all (\<lambda>kv. fst kv \<noteq> ''sig_response'' \<and> fst kv \<noteq> ''stateToken'') f"

subsection \<open>Scripted worlds\<close>

text \<open>
  A world that answers the \<open>n\<close>-th request with the \<open>n\<close>-th response of a script (and
  with a transport error after the script), whose prompts always give the same choice
  and the same text, and whose URLs are \<open>https://host/path\<close>.
  Its \<^verbatim>\<open>strings.ToUpper\<close> is the one of ASCII text: the factor types of the
  scenarios are ASCII.
\<close>

definition scripted :: "response list \<Rightarrow> nat \<Rightarrow> string \<Rightarrow> env" where
  "scripted script choice code =
     \<lparr>url_Parse = (\<lambda>u. Inr \<lparr>Host = takeWhile (\<lambda>c. c \<noteq> CHR ''/'') (drop 8 u), Query = []\<rparr>),
      client_Do = (\<lambda>tr req. case index script (length (requests tr)) of
                               None \<Rightarrow> Inl (Cause ''EOF'')
                             | Some r \<Rightarrow> Inr r),
      prompt_Choose = (\<lambda>p opts. choice),
      prompt_StringRequired = (\<lambda>p. code),
      html_UnescapeString = (\<lambda>s. s),
      strings_ToUpper = ToUpper_ASCII\<rparr>"

definition json_response :: "json \<Rightarrow> response" where
  "json_response j = \<lparr>ReadAll = (j, None), NewDocumentFromResponse = Inr []\<rparr>"

definition html_response :: "node list \<Rightarrow> response" where
  "html_response d = \<lparr>ReadAll = (JNull, None), NewDocumentFromResponse = Inr d\<rparr>"

text \<open>The documents of the scenarios; the raw text of their objects is never read.\<close>

definition obj :: "(string \<times> json) list \<Rightarrow> json" where
  "obj kvs = JObject [] kvs"

definition login :: LoginDetails where
  "login = \<lparr>Username = ''u'', Password = ''p'', Hostname = ''x.okta.com''\<rparr>"

definition factor :: "string \<Rightarrow> string \<Rightarrow> string \<Rightarrow> json" where
  "factor fid p t =
     obj [(''id'', JString fid), (''provider'', JString p), (''factorType'', JString t),
          (''_links'', obj [(''verify'', obj [(''href'', JString ''https://x/verify'')])])]"

definition mfa_required :: "json list \<Rightarrow> json" where
  "mfa_required fs =
     obj [(''status'', JString ''MFA_REQUIRED''), (''stateToken'', JString ''st1''),
          (''_embedded'', obj [(''factors'', JArray [] fs)])]"

definition session_body :: "string \<Rightarrow> json" where
  "session_body tok = obj [(''status'', JString ''SUCCESS''), (''sessionToken'', JString tok)]"

definition saml_page :: response where
  "saml_page =
     html_response [\<lparr>Tag = ''input'',
                     Attr = [(''name'', ''SAMLResponse''), (''value'', ''YXNzZXJ0aW9u'')]\<rparr>]"

definition duo_verify :: "string \<Rightarrow> json" where
  "duo_verify sig =
     obj [(''_embedded'', obj [(''factor'', obj [(''_embedded'', obj [(''verification'',
       obj [(''host'', JString ''duo.example''), (''signature'', JString sig),
            (''_links'', obj [(''complete'', obj [(''href'', JString ''https://x/cb'')])])])])])])]"

definition duo_status_body :: "string \<Rightarrow> string \<Rightarrow> response" where
  "duo_status_body r c =
     json_response (obj [(''response'',
       obj [(''result'', JString r), (''cookie'', JString c), (''status'', JString r)])])"

text \<open>
  A Duo run with push: the authentication response, the verify response with the
  signature, the page with the \<open>sid\<close>, the prompt response, the given status responses,
  then the responses to the callback, to the last verify request and to the redirect.
\<close>

definition duo_script :: "string \<Rightarrow> response list \<Rightarrow> response list" where
  "duo_script sig sts =
     [json_response (mfa_required [factor ''f1'' ''DUO'' ''web'']),
      json_response (duo_verify sig),
      html_response [\<lparr>Tag = ''input'', Attr = [(''name'', ''sid''), (''value'', ''SID'')]\<rparr>],
      json_response (obj [(''stat'', JString ''OK''),
                          (''response'', obj [(''txid'', JString ''TX1'')])])]
     @ sts
     @ [json_response JNull, json_response (session_body ''tok2''), saml_page]"

definition authn_post :: request where
  "authn_post =
     \<lparr>Method = ''POST'', URL = ''https://x.okta.com/api/v1/authn'', RawQuery = [],
      Header = [(''Content-Type'', ''application/json''), (''Accept'', ''application/json'')],
      Body = AuthJSON \<lparr>username = ''u'', password = ''p''\<rparr>\<rparr>"

definition redirect_get :: "string \<Rightarrow> request" where
  "redirect_get tok =
     \<lparr>Method = ''GET'', URL = ''https://x.okta.com/login/sessionCookieRedirect'',
      RawQuery = [(''checkAccountSetupComplete'', ''true''), (''token'', tok),
                  (''redirectUrl'', ''https://x.okta.com'')],
      Header = [], Body = NoBody\<rparr>"

definition verify_post :: "string \<Rightarrow> request" where
  "verify_post code =
     \<lparr>Method = ''POST'', URL = ''https://x/verify'', RawQuery = [],
      Header = [(''Content-Type'', ''application/json''), (''Accept'', ''application/json'')],
      Body = VerifyJSON \<lparr>StateToken = ''st1'', PassCode = code\<rparr>\<rparr>"

text \<open>
  Scenario B of the specification: one SMS factor, the passcode \<open>123456\<close>. The
  second script offers a second factor that is not supported.
\<close>

definition sms_script :: "response list" where
  "sms_script =
     [json_response (mfa_required [factor ''f1'' ''OKTA'' ''sms'']),
      json_response JNull,
      json_response (obj [(''sessionToken'', JString ''tok2'')]),
      saml_page]"

definition two_factors :: json where
  "two_factors = mfa_required [factor ''f1'' ''OKTA'' ''sms'', factor ''f2'' ''UNKNOWN'' ''custom'']"

definition two_factor_script :: "response list" where
  "two_factor_script =
     [json_response two_factors,
      json_response JNull,
      json_response (obj [(''sessionToken'', JString ''tok2'')]),
      saml_page]"

text \<open>A Duo push that is approved at the third status response.\<close>

definition duo_push_script :: "response list" where
  "duo_push_script =
     duo_script ''AAA:BBB''
       [duo_status_body ''WAITING'' ''c1'', duo_status_body ''WAITING'' ''c2'',
        duo_status_body ''SUCCESS'' ''c3'']"

section \<open>Properties\<close>

subsection \<open>Array indices in paths\<close>

lemma digit_val_digit_char: "d < 10 \<Longrightarrow> digit_val (digit_char d) = Some d"
  by (simp add: digit_val_def digit_char_def Let_def)

lemma parse_digits_snoc:
  "parse_digits n (cs @ [c]) =
     (case parse_digits n cs of
        None \<Rightarrow> None
      | Some m \<Rightarrow> (case digit_val c of None \<Rightarrow> None | Some d \<Rightarrow> Some (m * 10 + d)))"
  by (induction cs arbitrary: n) (auto split: option.splits)

lemma Sprintf_d_not_Nil: "Sprintf_d n \<noteq> []"
  by (subst Sprintf_d.simps) simp

lemma parse_digits_Sprintf_d: "parse_digits 0 (Sprintf_d n) = Some n"
proof (induction n rule: Sprintf_d.induct)
  case (1 n)
  show ?case
  proof (cases "n < 10")
    case True
    then show ?thesis
      by (subst Sprintf_d.simps) (simp add: digit_val_digit_char)
  next
    case False
    with 1 have "parse_digits 0 (Sprintf_d (n div 10)) = Some (n div 10)"
      by simp
    with False show ?thesis
      by (subst Sprintf_d.simps) (simp add: parse_digits_snoc digit_val_digit_char)
  qed
qed

lemma parseUint_Sprintf_d: "parseUint (Sprintf_d n) = Some n"
  by (simp add: parseUint_def Sprintf_d_not_Nil parse_digits_Sprintf_d)

lemma factor_path:
  assumes "gjson_Get resp [''_embedded'', ''factors''] = Some (JArray raw fs)" and "i < length fs"
  shows "gjson_Get resp (''_embedded'' # ''factors'' # Sprintf_d i # ps) = gjson_Get (fs ! i) ps"
  using assms by (auto simp: parseUint_Sprintf_d index_def split: option.splits)

subsection \<open>Splitting at a separator\<close>

lemma Split_not_Nil: "Split s sep \<noteq> []"
  by (induction s) (auto split: list.splits)

lemma Split_no_sep: "sep \<notin> set s \<Longrightarrow> Split s sep = [s]"
  by (induction s) auto

lemma Split_at_sep: "sep \<notin> set a \<Longrightarrow> Split (a @ sep # r) sep = a # Split r sep"
  by (induction a) (auto split: list.splits)

lemma Split_two: "sep \<notin> set a \<Longrightarrow> sep \<notin> set b \<Longrightarrow> Split (a @ sep # b) sep = [a, b]"
  by (simp add: Split_at_sep Split_no_sep)

lemma length_Split: "length (Split s sep) = Suc (length (filter (\<lambda>c. c = sep) s))"
  by (induction s) (auto split: list.splits)

lemma index_Split_0: "index (Split s sep) 0 = Some (hd (Split s sep))"
  using Split_not_Nil [of s sep] by (cases "Split s sep") (simp_all add: index_def)

subsection \<open>Every part of the flow extends the trace with events that respect the tokens\<close>

lemma events_ok_append:
  "events_ok Q pre (xs @ ys) = (events_ok Q pre xs \<and> events_ok Q (pre @ xs) ys)"
  by (induction xs arbitrary: pre) auto

lemma events_ok_extend:
  assumes "events_ok Q tr pre"
    and "\<exists>new. tr' = (tr @ pre) @ new \<and> events_ok Q (tr @ pre) new"
  shows "\<exists>new. tr' = tr @ new \<and> events_ok Q tr new"
proof -
  from assms(2) obtain new where "tr' = (tr @ pre) @ new" "events_ok Q (tr @ pre) new"
    by blast
  with assms(1) have "tr' = tr @ (pre @ new) \<and> events_ok Q tr (pre @ new)"
    by (simp add: events_ok_append)
  then show ?thesis
    by blast
qed

lemma last_cookie_snoc2:
  "client_Do env tr req = Inr res \<Longrightarrow>
   last_cookie env (tr @ [Do req, Println s]) =
     Some (gjson_String (gjson_Get (fst (ReadAll res)) [''response'', ''cookie'']))"
  by (simp add: last_cookie_def)

lemma NewRequest_Inr:
  "NewRequest env m u b = Inr req \<Longrightarrow> Body req = b \<and> Method req = m \<and> URL req = u \<and> Header req = []
    \<and> (\<exists>pu. url_Parse env u = Inr pu \<and> RawQuery req = Query pu)"
  by (auto simp: NewRequest_def split: sum.splits)

lemma later_event_simps:
  "later_event env st app pre (Sleep n)"
  "later_event env st app pre (Println s)"
  "later_event env st app pre (StringRequired p)"
  "later_event env st app pre (Choose p opts) = (p \<noteq> factor_prompt)"
  by (simp_all add: later_event_def flow_event_def sig_response_ok_def)

lemma later_event_Do_plain:
  "form_values r ''sig_response'' = [] \<Longrightarrow> state_tokens r = [] \<Longrightarrow> later_event env st app pre (Do r)"
  by (simp add: later_event_def flow_event_def sig_response_ok_def token_ok_def)

lemma later_event_Do_verify:
  "Body r = VerifyJSON \<lparr>StateToken = st, PassCode = c\<rparr> \<Longrightarrow> later_event env st app pre (Do r)"
  by (simp add: later_event_def flow_event_def sig_response_ok_def token_ok_def state_tokens_def form_values_def)

lemma later_event_Do_form:
  "Body r = Form f \<Longrightarrow> plain_form f \<Longrightarrow> later_event env st app pre (Do r)"
  by (rule later_event_Do_plain)
     (auto simp: state_tokens_def form_values_def plain_form_def list_all_iff filter_empty_conv)

lemma plain_form_status: "plain_form [(''sid'', a), (''txid'', b)]"
  by (simp add: plain_form_def)

lemma plain_form_prompt:
  "plain_form ([(''sid'', a), (''device'', b), (''factor'', c), (''out_of_date'', d)] @
     (if p then [(''passcode'', t)] else []))"
  by (simp add: plain_form_def)

lemma plain_form_auth:
  "plain_form [(''parent'', a), (''java_version'', b), (''java_version'', c), (''flash_version'', d),
     (''screen_resolution_width'', e), (''screen_resolution_height'', f), (''color_depth'', g)]"
  by (simp add: plain_form_def)

lemma session_redirect_events:
  assumes "session_redirect env h e resp tr = (out, tr')"
  shows "\<exists>new. tr' = tr @ new \<and> events_ok (later_event env st app) tr new"
  using assms
  by (auto simp: session_redirect_def Let_def later_event_def flow_event_def sig_response_ok_def token_ok_def
      state_tokens_def form_values_def Query_Add_def Header_Add_def
      dest!: NewRequest_Inr split: sum.splits option.splits)

lemma duo_callback_events:
  assumes "duo_callback env h e st fid verify cb sigs cookie tr = (out, tr')"
    and "last_cookie env tr = Some cookie"
    and "\<And>x. index sigs 1 = Some x \<Longrightarrow> x = app"
  shows "\<exists>new. tr' = tr @ new \<and> events_ok (later_event env st app) tr new"
proof (cases "index sigs 1")
  case None
  with assms(1) show ?thesis
    by (simp add: duo_callback_def)
next
  case (Some x)
  with assms(3) have x: "index sigs 1 = Some app"
    by simp
  let ?form = "Form [(''id'', fid), (''stateToken'', st), (''sig_response'', cookie @ '':'' @ app)]"
  have cb_ok: "later_event env st app tr (Do r)" if "Body r = ?form" for r
    using that assms(2)
    by (simp add: later_event_def flow_event_def sig_response_ok_def token_ok_def state_tokens_def form_values_def)
  show ?thesis
    using assms(1) x
    by (auto simp: duo_callback_def Let_def Header_Add_def events_ok_append
        later_event_Do_verify cb_ok
        dest!: NewRequest_Inr session_redirect_events [where st = st and app = app]
        split: sum.splits)
qed

lemma duo_poll_events_aux:
  assumes run: "duo_poll env0 u0 f0 tr0 = Some y0" and plain: "plain_form f0"
  shows "\<exists>new. snd y0 = tr0 @ new \<and> events_ok (later_event env0 st app) tr0 new \<and>
           (\<forall>c. fst y0 = Inr c \<longrightarrow> last_cookie env0 (snd y0) = Some c)"
proof -
  define P where "P = (\<lambda>env (u :: string) f tr (y :: (outcome + string) \<times> event list).
    plain_form f \<longrightarrow>
    (\<exists>new. snd y = tr @ new \<and> events_ok (later_event env st app) tr new \<and>
           (\<forall>c. fst y = Inr c \<longrightarrow> last_cookie env (snd y) = Some c)))"
  have "P env0 u0 f0 tr0 y0"
  proof (rule duo_poll.raw_induct [where P = P, OF _ run], goal_cases)
  case (1 poll env u f tr y)
  note hyps = "1"(2) and IH = "1"(1)
  show ?case unfolding P_def
  proof
  assume prems: "plain_form f"
  show "\<exists>new. snd y = tr @ new \<and> events_ok (later_event env st app) tr new \<and>
           (\<forall>c. fst y = Inr c \<longrightarrow> last_cookie env (snd y) = Some c)"
  proof (cases "NewRequest env ''POST'' u (Form f)")
    case (Inl err)
    with hyps show ?thesis
      by (auto simp: later_event_simps)
  next
    case (Inr req0)
    define req where "req = Header_Add req0 ''Content-Type'' ''application/x-www-form-urlencoded''"
    have body: "Body req = Form f"
      using Inr by (auto simp: req_def Header_Add_def dest: NewRequest_Inr)
    have req_ok: "later_event env st app pre (Do req)" for pre
      using body prems by (rule later_event_Do_form)
    show ?thesis
    proof (cases "client_Do env (tr @ [Sleep 3]) req")
      case (Inl err)
      with hyps Inr show ?thesis
        by (auto simp: req_def [symmetric] Let_def later_event_simps req_ok)
    next
      case res: (Inr res)
      define resp where "resp = fst (ReadAll res)"
      define tr2 where "tr2 = (tr @ [Sleep 3]) @ [Do req,
          Println (gjson_String (gjson_Get resp [''response'', ''status'']))]"
      have cookie: "last_cookie env tr2 =
          Some (gjson_String (gjson_Get resp [''response'', ''cookie'']))"
        unfolding tr2_def resp_def using res by (rule last_cookie_snoc2)
      have step: "events_ok (later_event env st app) tr
          [Sleep 3, Do req, Println (gjson_String (gjson_Get resp [''response'', ''status'']))]"
        by (simp add: later_event_simps req_ok)
      consider (failure) "gjson_String (gjson_Get resp [''response'', ''result'']) = ''FAILURE''"
        | (success) "gjson_String (gjson_Get resp [''response'', ''result'']) = ''SUCCESS''"
        | (again) "gjson_String (gjson_Get resp [''response'', ''result'']) \<noteq> ''FAILURE''"
            "gjson_String (gjson_Get resp [''response'', ''result'']) \<noteq> ''SUCCESS''"
        by blast
      then show ?thesis
      proof cases
        case failure
        with hyps Inr res step show ?thesis
          by (auto simp: req_def [symmetric] resp_def [symmetric] Let_def)
      next
        case success
        with hyps Inr res step cookie show ?thesis
          by (auto simp: req_def [symmetric] resp_def [symmetric] tr2_def Let_def)
      next
        case again
        with hyps Inr res have "poll env u f tr2 = Some y"
          by (simp add: req_def [symmetric] resp_def [symmetric] tr2_def Let_def)
        from IH [OF this] prems obtain new where
          new: "snd y = tr2 @ new" "events_ok (later_event env st app) tr2 new"
            "\<forall>c. fst y = Inr c \<longrightarrow> last_cookie env (snd y) = Some c"
          unfolding P_def by blast
        have "snd y = tr @ ([Sleep 3, Do req,
            Println (gjson_String (gjson_Get resp [''response'', ''status'']))] @ new)"
          using new(1) by (simp add: tr2_def)
        moreover have "events_ok (later_event env st app) tr ([Sleep 3, Do req,
            Println (gjson_String (gjson_Get resp [''response'', ''status'']))] @ new)"
          using step new(2) by (simp add: events_ok_append tr2_def)
        ultimately show ?thesis
          using new(3) by blast
      qed
    qed
  qed
  qed
  qed
  with plain show ?thesis
    unfolding P_def by blast
qed

lemma duo_status_events:
  assumes "duo_status env h e st fid verify cb sigs host sid txid tr = Some (out, tr')"
    and "\<And>x. index sigs 1 = Some x \<Longrightarrow> x = app"
  shows "\<exists>new. tr' = tr @ new \<and> events_ok (later_event env st app) tr new"
proof (cases "NewRequest env ''POST'' (''https://'' @ host @ ''/frame/status'') (Form [(''sid'', sid), (''txid'', txid)])")
  case (Inl err)
  with assms(1) show ?thesis
    by (simp add: duo_status_def)
next
  case (Inr req0)
  define req where "req = Header_Add req0 ''Content-Type'' ''application/x-www-form-urlencoded''"
  have body: "Body req = Form [(''sid'', sid), (''txid'', txid)]"
    using Inr by (auto simp: req_def Header_Add_def dest: NewRequest_Inr)
  have req_ok: "later_event env st app pre (Do req)" for pre
    using body plain_form_status by (rule later_event_Do_form)
  show ?thesis
  proof (cases "client_Do env tr req")
    case (Inl err)
    with assms(1) Inr show ?thesis
      by (auto simp: duo_status_def req_def [symmetric] Let_def req_ok)
  next
    case res: (Inr res)
    define resp where "resp = fst (ReadAll res)"
    define tr1 where "tr1 = tr @ [Do req,
        Println (gjson_String (gjson_Get resp [''response'', ''status'']))]"
    have cookie: "last_cookie env tr1 =
        Some (gjson_String (gjson_Get resp [''response'', ''cookie'']))"
      unfolding tr1_def resp_def using res by (rule last_cookie_snoc2)
    have step: "events_ok (later_event env st app) tr
        [Do req, Println (gjson_String (gjson_Get resp [''response'', ''status'']))]"
      by (simp add: later_event_simps req_ok)
    have rest: "\<exists>new. tr' = tr1 @ new \<and> events_ok (later_event env st app) tr1 new"
    proof (cases "gjson_String (gjson_Get resp [''response'', ''result'']) = ''SUCCESS''")
      case True
      with assms(1) Inr res have
        "duo_callback env h e st fid verify cb sigs
           (gjson_String (gjson_Get resp [''response'', ''cookie''])) tr1 = (out, tr')"
        by (simp add: duo_status_def req_def [symmetric] resp_def [symmetric] tr1_def Let_def)
      from duo_callback_events [OF this cookie assms(2)] show ?thesis
        by simp
    next
      case False
      with assms(1) Inr res have poll:
        "(case duo_poll env (''https://'' @ host @ ''/frame/status'')
                 [(''sid'', sid), (''txid'', txid)] tr1 of
            None \<Rightarrow> None
          | Some (Inl out, tr2) \<Rightarrow> Some (out, tr2)
          | Some (Inr cookie, tr2) \<Rightarrow>
              Some (duo_callback env h e st fid verify cb sigs cookie tr2)) = Some (out, tr')"
        by (simp add: duo_status_def req_def [symmetric] resp_def [symmetric] tr1_def Let_def)
      then obtain y where y: "duo_poll env (''https://'' @ host @ ''/frame/status'')
                 [(''sid'', sid), (''txid'', txid)] tr1 = Some y"
        by (auto split: option.splits)
      from duo_poll_events_aux [OF y plain_form_status, of st app] obtain new where
        new: "snd y = tr1 @ new" "events_ok (later_event env st app) tr1 new"
          "\<forall>c. fst y = Inr c \<longrightarrow> last_cookie env (snd y) = Some c"
        by blast
      show ?thesis
      proof (cases "fst y")
        case (Inl out')
        with poll y new show ?thesis
          by (cases y) auto
      next
        case (Inr c)
        with poll y have cb: "duo_callback env h e st fid verify cb sigs c (snd y) = (out, tr')"
          by (cases y) auto
        from new(3) Inr have "last_cookie env (snd y) = Some c"
          by simp
        from duo_callback_events [OF cb this assms(2)] obtain new' where
          "tr' = snd y @ new'" "events_ok (later_event env st app) (snd y) new'"
          by blast
        with new(1,2) have "tr' = tr1 @ (new @ new') \<and>
            events_ok (later_event env st app) tr1 (new @ new')"
          by (simp add: events_ok_append)
        then show ?thesis
          by blast
      qed
    qed
    then obtain new where "tr' = tr1 @ new" "events_ok (later_event env st app) tr1 new"
      by blast
    with step have "tr' = tr @ ([Do req,
        Println (gjson_String (gjson_Get resp [''response'', ''status'']))] @ new) \<and>
      events_ok (later_event env st app) tr ([Do req,
        Println (gjson_String (gjson_Get resp [''response'', ''status'']))] @ new)"
      unfolding events_ok_append by (simp add: tr1_def)
    then show ?thesis
      by blast
  qed
qed

lemma duo_prompt_events:
  assumes "duo_prompt env h e st fid verify cb sigs host sid tr = Some (out, tr')"
    and "\<And>x. index sigs 1 = Some x \<Longrightarrow> x = app"
  shows "\<exists>new. tr' = tr @ new \<and> events_ok (later_event env st app) tr new"
proof -
  define opts where "opts = [''Passcode'', ''Duo Push'']"
  define tr1 where "tr1 = tr @ [Choose ''Select a DUO MFA Option'' opts]"
  have choose: "events_ok (later_event env st app) tr [Choose ''Select a DUO MFA Option'' opts]"
    by (simp add: later_event_simps factor_prompt_def)
  show ?thesis
  proof (cases "index opts (prompt_Choose env ''Select a DUO MFA Option'' opts)")
    case None
    with assms(1) choose show ?thesis
      by (auto simp: duo_prompt_def Let_def opts_def)
  next
    case (Some factor)
    define tr2 where "tr2 = (if factor = ''Passcode''
                         then tr1 @ [StringRequired ''Enter passcode''] else tr1)"
    define form where "form = [(''sid'', sid), (''device'', ''phone1''), (''factor'', factor),
                             (''out_of_date'', ''false'')]
                            @ (if factor = ''Passcode''
                               then [(''passcode'', prompt_StringRequired env ''Enter passcode'')]
                               else [])"
    have pre: "\<exists>pre. tr2 = tr @ pre \<and> events_ok (later_event env st app) tr pre"
      using choose by (auto simp: tr2_def tr1_def later_event_simps)
    have plain: "plain_form form"
      unfolding form_def by (rule plain_form_prompt)
    have "\<exists>new. tr' = tr2 @ new \<and> events_ok (later_event env st app) tr2 new"
    proof (cases "NewRequest env ''POST'' (''https://'' @ host @ ''/frame/prompt'') (Form form)")
      case (Inl err)
      with assms(1) Some show ?thesis
        unfolding opts_def tr1_def tr2_def form_def
        by (auto simp: duo_prompt_def Let_def split: if_splits)
    next
      case (Inr req0)
      define req where "req = Header_Add req0 ''Content-Type'' ''application/x-www-form-urlencoded''"
      have body: "Body req = Form form"
        using Inr by (auto simp: req_def Header_Add_def dest: NewRequest_Inr)
      have req_ok: "events_ok (later_event env st app) tr2 [Do req]"
        using later_event_Do_form [OF body plain] by simp
      show ?thesis
      proof (cases "client_Do env tr2 req")
        case (Inl err)
        with assms(1) Some Inr req_ok show ?thesis
          unfolding opts_def tr1_def tr2_def form_def req_def
          by (auto simp: duo_prompt_def Let_def split: if_splits)
      next
        case res: (Inr res)
        show ?thesis
        proof (cases "gjson_String (gjson_Get (fst (ReadAll res)) [''stat'']) = ''OK''")
          case False
          with assms(1) Some Inr res req_ok show ?thesis
            unfolding opts_def tr1_def tr2_def form_def req_def
            by (auto simp: duo_prompt_def Let_def split: if_splits)
        next
          case True
          with assms(1) Some Inr res have
            "duo_status env h e st fid verify cb sigs host sid
               (gjson_String (gjson_Get (fst (ReadAll res)) [''response'', ''txid'']))
               (tr2 @ [Do req]) = Some (out, tr')"
            unfolding opts_def tr1_def tr2_def form_def req_def
            by (auto simp: duo_prompt_def Let_def split: if_splits)
          from duo_status_events [OF this assms(2)] req_ok show ?thesis
            by (rule events_ok_extend [rotated])
        qed
      qed
    qed
    with pre show ?thesis
      by (auto intro: events_ok_extend)
  qed
qed

lemma duo_auth_events:
  assumes "duo_auth env h e st fid verify resp tr = Some (out, tr')"
    and "\<And>x. index (Split (gjson_String (gjson_Get resp
            [''_embedded'', ''factor'', ''_embedded'', ''verification'', ''signature'']))
            CHR '':'') 1 = Some x \<Longrightarrow> x = app"
  shows "\<exists>new. tr' = tr @ new \<and> events_ok (later_event env st app) tr new"
proof -
  define host where "host = gjson_String (gjson_Get resp
            [''_embedded'', ''factor'', ''_embedded'', ''verification'', ''host''])"
  define sigs where "sigs = Split (gjson_String (gjson_Get resp
            [''_embedded'', ''factor'', ''_embedded'', ''verification'', ''signature''])) CHR '':''"
  define form where "form = [(''parent'', ''https://'' @ h @ ''/signin/verify/duo/web''),
                     (''java_version'', []), (''java_version'', []), (''flash_version'', []),
                     (''screen_resolution_width'', ''3008''),
                     (''screen_resolution_height'', ''1692''), (''color_depth'', ''24'')]"
  have plain: "plain_form form"
    unfolding form_def by (rule plain_form_auth)
  have sigs0: "index sigs 0 = Some (hd sigs)"
    unfolding sigs_def by (rule index_Split_0)
  show ?thesis
  proof (cases "NewRequest env ''POST'' (''https://'' @ host @ ''/frame/web/v1/auth'') (Form form)")
    case (Inl err)
    with assms(1) show ?thesis
      unfolding host_def form_def
      by (simp add: duo_auth_def Let_def)
  next
    case (Inr req0)
    define req where "req = Header_Add (Query_Add req0 ''tx'' (hd sigs)) ''Content-Type''
                               ''application/x-www-form-urlencoded''"
    have body: "Body req = Form form"
      using Inr by (auto simp: req_def Header_Add_def Query_Add_def dest: NewRequest_Inr)
    have req_ok: "events_ok (later_event env st app) tr [Do req]"
      using later_event_Do_form [OF body plain] by simp
    show ?thesis
    proof (cases "client_Do env tr req")
      case (Inl err)
      with assms(1) Inr sigs0 req_ok show ?thesis
        unfolding host_def form_def req_def sigs_def
        by (auto simp: duo_auth_def Let_def)
    next
      case res: (Inr res)
      show ?thesis
      proof (cases "NewDocumentFromResponse res")
        case (Inl err)
        with assms(1) Inr res sigs0 req_ok show ?thesis
          unfolding host_def form_def req_def sigs_def
          by (auto simp: duo_auth_def Let_def)
      next
        case doc: (Inr doc)
        show ?thesis
        proof (cases "Attr_value (Find_input doc ''sid'')")
          case None
          with assms(1) Inr res doc sigs0 req_ok show ?thesis
            unfolding host_def form_def req_def sigs_def
            by (auto simp: duo_auth_def Let_def)
        next
          case (Some sid)
          with assms(1) Inr res doc sigs0 have
            "duo_prompt env h e st fid verify
               (gjson_String (gjson_Get resp
                  [''_embedded'', ''factor'', ''_embedded'', ''verification'', ''_links'',
                   ''complete'', ''href'']))
               sigs host (html_UnescapeString env sid) (tr @ [Do req]) = Some (out, tr')"
            unfolding host_def form_def req_def sigs_def
            by (auto simp: duo_auth_def Let_def)
          from duo_prompt_events [OF this, of app] assms(2) req_ok show ?thesis
            unfolding sigs_def by (blast intro: events_ok_extend)
        qed
      qed
    qed
  qed
qed

lemma duo_prompt_extends:
  assumes "duo_prompt env h e st fid verify cb sigs host sid tr = Some (out, tr')"
  shows "\<exists>new. tr' = tr @ new"
proof -
  have "\<And>x. index sigs 1 = Some x \<Longrightarrow> x = (case index sigs 1 of None \<Rightarrow> [] | Some a \<Rightarrow> a)"
    by simp
  from duo_prompt_events [OF assms this] show ?thesis
    by blast
qed

lemma duo_auth_first_request:
  assumes "duo_auth env h e st fid verify resp tr = Some (out, tr')"
    and "url_Parse env (''https://'' @ gjson_String (gjson_Get resp
            [''_embedded'', ''factor'', ''_embedded'', ''verification'', ''host''])
            @ ''/frame/web/v1/auth'') = Inr pu"
    and "index (Split (gjson_String (gjson_Get resp
            [''_embedded'', ''factor'', ''_embedded'', ''verification'', ''signature'']))
            CHR '':'') 0 = Some tx"
  shows "\<exists>r rest. tr' = tr @ Do r # rest \<and> RawQuery r = Query pu @ [(''tx'', tx)]"
proof -
  define form where "form = [(''parent'', ''https://'' @ h @ ''/signin/verify/duo/web''),
                     (''java_version'', []), (''java_version'', []), (''flash_version'', []),
                     (''screen_resolution_width'', ''3008''),
                     (''screen_resolution_height'', ''1692''), (''color_depth'', ''24'')]"
  define req0 where "req0 = \<lparr>Method = ''POST'', URL = ''https://'' @ gjson_String (gjson_Get resp
            [''_embedded'', ''factor'', ''_embedded'', ''verification'', ''host''])
            @ ''/frame/web/v1/auth'', RawQuery = Query pu, Header = [], Body = Form form\<rparr>"
  define req where "req = Header_Add (Query_Add req0 ''tx'' tx) ''Content-Type''
                               ''application/x-www-form-urlencoded''"
  have new: "NewRequest env ''POST'' (''https://'' @ gjson_String (gjson_Get resp
            [''_embedded'', ''factor'', ''_embedded'', ''verification'', ''host''])
            @ ''/frame/web/v1/auth'') (Form form) = Inr req0"
    using assms(2) by (simp add: NewRequest_def req0_def)
  have query: "RawQuery req = Query pu @ [(''tx'', tx)]"
    by (simp add: req_def req0_def Header_Add_def Query_Add_def)
  have "\<exists>rest. tr' = (tr @ [Do req]) @ rest"
  proof (cases "client_Do env tr req")
    case (Inl err)
    with assms(1,3) new show ?thesis
      unfolding form_def req_def
      by (simp add: duo_auth_def Let_def)
  next
    case res: (Inr res)
    show ?thesis
    proof (cases "NewDocumentFromResponse res")
      case (Inl err)
      with assms(1,3) new res show ?thesis
        unfolding form_def req_def
        by (simp add: duo_auth_def Let_def)
    next
      case doc: (Inr doc)
      show ?thesis
      proof (cases "Attr_value (Find_input doc ''sid'')")
        case None
        with assms(1,3) new res doc show ?thesis
          unfolding form_def req_def
          by (simp add: duo_auth_def Let_def)
      next
        case (Some sid)
        with assms(1,3) new res doc show ?thesis
          unfolding form_def req_def
          by (auto simp: duo_auth_def Let_def dest: duo_prompt_extends)
      qed
    qed
  qed
  with query show ?thesis
    by auto
qed

lemma later_flow:
  "events_ok (later_event env st app) tr new \<Longrightarrow> list_all (flow_event st) new"
  by (induction new arbitrary: tr) (auto simp: later_event_def)

lemma later_sig:
  "events_ok (later_event env st app) tr new \<Longrightarrow> events_ok (sig_response_ok env app) tr new"
  by (induction new arbitrary: tr) (auto simp: later_event_def)

lemma flow_event_verify:
  "Body r = VerifyJSON \<lparr>StateToken = st, PassCode = c\<rparr> \<Longrightarrow> flow_event st (Do r)"
  by (simp add: flow_event_def token_ok_def state_tokens_def form_values_def)

lemma session_redirect_flow:
  assumes "session_redirect env h e resp tr = (out, tr')"
  shows "\<exists>new. tr' = tr @ new \<and> list_all (flow_event st) new"
  using session_redirect_events [OF assms, of st "[]"] later_flow by blast

lemma duo_auth_flow:
  assumes "duo_auth env h e st fid verify resp tr = Some (out, tr')"
  shows "\<exists>new. tr' = tr @ new \<and> list_all (flow_event st) new"
proof -
  let ?sigs = "Split (gjson_String (gjson_Get resp
            [''_embedded'', ''factor'', ''_embedded'', ''verification'', ''signature'']))
            CHR '':''"
  have "\<And>x. index ?sigs 1 = Some x \<Longrightarrow> x = (case index ?sigs 1 of None \<Rightarrow> [] | Some a \<Rightarrow> a)"
    by simp
  from duo_auth_events [OF assms this] later_flow show ?thesis
    by blast
qed

lemma flow_extend:
  assumes "list_all (flow_event st) pre"
    and "\<exists>new. tr' = (tr @ pre) @ new \<and> list_all (flow_event st) new"
  shows "\<exists>new. tr' = tr @ new \<and> list_all (flow_event st) new"
proof -
  from assms(2) obtain new where "tr' = (tr @ pre) @ new" "list_all (flow_event st) new"
    by blast
  with assms(1) have "tr' = tr @ (pre @ new) \<and> list_all (flow_event st) (pre @ new)"
    by simp
  then show ?thesis
    by blast
qed

lemma token_post_flow:
  assumes "token_post env h e st verify tr = (out, tr')"
  shows "\<exists>new. tr' = tr @ new \<and> list_all (flow_event st) new"
proof -
  define code where "code = prompt_StringRequired env ''Enter verification code''"
  have ask: "list_all (flow_event st) [StringRequired ''Enter verification code'']"
    by (simp add: flow_event_def)
  have "\<exists>new. tr' = (tr @ [StringRequired ''Enter verification code'']) @ new \<and>
          list_all (flow_event st) new"
  proof (cases "NewRequest env ''POST'' verify (VerifyJSON \<lparr>StateToken = st, PassCode = code\<rparr>)")
    case (Inl err)
    with assms show ?thesis
      unfolding code_def by (simp add: token_post_def Let_def)
  next
    case (Inr req0)
    define req where "req = Header_Add (Header_Add req0
                          ''Content-Type'' ''application/json'')
                          ''Accept'' ''application/json''"
    have "Body req = VerifyJSON \<lparr>StateToken = st, PassCode = code\<rparr>"
      using Inr by (auto simp: req_def Header_Add_def dest: NewRequest_Inr)
    then have req_ok: "list_all (flow_event st) [Do req]"
      by (simp add: flow_event_verify)
    show ?thesis
    proof (cases "client_Do env (tr @ [StringRequired ''Enter verification code'']) req")
      case (Inl err)
      with assms Inr req_ok show ?thesis
        unfolding code_def req_def by (auto simp: token_post_def Let_def)
    next
      case res: (Inr res)
      with assms Inr have "session_redirect env h e (fst (ReadAll res))
          ((tr @ [StringRequired ''Enter verification code'']) @ [Do req]) = (out, tr')"
        unfolding code_def req_def by (simp add: token_post_def Let_def)
      from req_ok session_redirect_flow [OF this] show ?thesis
        by (rule flow_extend)
    qed
  qed
  with ask show ?thesis
    by (rule flow_extend)
qed

lemma mfa_verify_flow:
  assumes "mfa_verify env h e st fid verify ident tr = Some (out, tr')"
  shows "\<exists>new. tr' = tr @ new \<and> list_all (flow_event st) new"
proof (cases "NewRequest env ''POST'' verify (VerifyJSON \<lparr>StateToken = st, PassCode = []\<rparr>)")
  case (Inl err)
  with assms show ?thesis
    by (simp add: mfa_verify_def Let_def)
next
  case (Inr req0)
  define req where "req = Header_Add (Header_Add req0
                          ''Content-Type'' ''application/json'')
                          ''Accept'' ''application/json''"
  have "Body req = VerifyJSON \<lparr>StateToken = st, PassCode = []\<rparr>"
    using Inr by (auto simp: req_def Header_Add_def dest: NewRequest_Inr)
  then have req_ok: "list_all (flow_event st) [Do req]"
    by (simp add: flow_event_verify)
  show ?thesis
  proof (cases "client_Do env tr req")
    case (Inl err)
    with assms Inr req_ok show ?thesis
      unfolding req_def by (auto simp: mfa_verify_def Let_def)
  next
    case res: (Inr res)
    have "\<exists>new. tr' = (tr @ [Do req]) @ new \<and> list_all (flow_event st) new"
    proof -
      consider (sms) "ident = IdentifierSmsMfa \<or> ident = IdentifierTotpMfa"
        | (duo) "\<not> (ident = IdentifierSmsMfa \<or> ident = IdentifierTotpMfa)" "ident = IdentifierDuoMfa"
        | (none) "\<not> (ident = IdentifierSmsMfa \<or> ident = IdentifierTotpMfa)" "ident \<noteq> IdentifierDuoMfa"
        by blast
      then show ?thesis
      proof cases
        case sms
        with assms Inr res have "token_post env h e st verify (tr @ [Do req]) = (out, tr')"
          unfolding req_def by (auto simp: mfa_verify_def Let_def)
        then show ?thesis
          by (rule token_post_flow)
      next
        case duo
        with assms Inr res have
          "duo_auth env h e st fid verify (fst (ReadAll res)) (tr @ [Do req]) = Some (out, tr')"
          unfolding req_def by (auto simp: mfa_verify_def Let_def)
        then show ?thesis
          by (rule duo_auth_flow)
      next
        case none
        with assms Inr res have
          "session_redirect env h e (fst (ReadAll res)) (tr @ [Do req]) = (out, tr')"
          unfolding req_def by (auto simp: mfa_verify_def Let_def)
        then show ?thesis
          by (rule session_redirect_flow)
      qed
    qed
    with req_ok show ?thesis
      by (rule flow_extend)
  qed
qed

lemma mfa_selected_flow:
  assumes "mfa_selected env h e st resp err n tr = Some (out, tr')"
  shows "\<exists>new. tr' = tr @ new \<and> list_all (flow_event st) new"
  using assms
  by (auto simp: mfa_selected_def Let_def split: option.splits dest: mfa_verify_flow)

subsection \<open>The session token exchange\<close>

lemma session_redirect_shape:
  "\<exists>out rest. session_redirect env h e resp tr = (out, tr @ rest) \<and>
     (rest = [] \<or>
      (\<exists>r. rest = [Do r] \<and> Method r = ''GET'' \<and> Body r = NoBody \<and>
           (''token'', gjson_String (gjson_Get resp [''sessionToken''])) \<in> set (RawQuery r)))"
  by (auto simp: session_redirect_def Let_def NewRequest_def Query_Add_def
      split: sum.splits option.splits)

lemma session_redirect_found:
  assumes "NewRequest env ''GET'' (''https://'' @ h @ ''/login/sessionCookieRedirect'') NoBody = Inr req0"
    and "client_Do env tr (Query_Add (Query_Add (Query_Add req0
            ''checkAccountSetupComplete'' ''true'')
            ''token'' (gjson_String (gjson_Get resp [''sessionToken''])))
            ''redirectUrl'' e) = Inr res"
    and "NewDocumentFromResponse res = Inr doc"
  shows "fst (session_redirect env h e resp tr) =
     (case Attr_value (Find_input doc ''SAMLResponse'') of
        None \<Rightarrow> Return [] None
      | Some v \<Rightarrow> Return v None)"
  using assms by (simp add: session_redirect_def Let_def split: option.splits)

subsection \<open>A status other than \<open>MFA_REQUIRED\<close>\<close>

text \<open>
  Claim C6. When the status of the authentication response is not \<open>MFA_REQUIRED\<close>, the
  function enters no MFA branch: it continues at once with the session token exchange
  on that response, so that the run has no prompt and, after the authentication request,
  at most the redirect request, which carries the session token of that response.
\<close>

theorem no_mfa_branch:
  assumes "url_Parse env (''https://'' @ Hostname ld) = Inr u"
    and "NewRequest env ''POST'' (''https://'' @ Host u @ ''/api/v1/authn'')
           (AuthJSON \<lparr>username = Username ld, password = Password ld\<rparr>) = Inr req0"
    and "client_Do env []
           (Header_Add (Header_Add req0 ''Content-Type'' ''application/json'')
              ''Accept'' ''application/json'') = Inr res"
    and "gjson_String (gjson_Get (fst (ReadAll res)) [''status'']) \<noteq> ''MFA_REQUIRED''"
  shows "Authenticate env ld =
           Some (session_redirect env (Host u) (''https://'' @ Hostname ld) (fst (ReadAll res))
             [Do (Header_Add (Header_Add req0 ''Content-Type'' ''application/json'')
                ''Accept'' ''application/json'')]) \<and>
         (\<exists>out rest. Authenticate env ld =
            Some (out, Do (Header_Add (Header_Add req0 ''Content-Type'' ''application/json'')
                ''Accept'' ''application/json'') # rest) \<and>
            (rest = [] \<or>
             (\<exists>r. rest = [Do r] \<and> Method r = ''GET'' \<and> Body r = NoBody \<and>
                (''token'', gjson_String (gjson_Get (fst (ReadAll res)) [''sessionToken'']))
                  \<in> set (RawQuery r))))"
proof -
  let ?req = "Header_Add (Header_Add req0 ''Content-Type'' ''application/json'')
                ''Accept'' ''application/json''"
  have run: "Authenticate env ld =
      Some (session_redirect env (Host u) (''https://'' @ Hostname ld) (fst (ReadAll res)) [Do ?req])"
    using assms by (simp add: Authenticate_def Let_def)
  obtain out rest where shape:
    "session_redirect env (Host u) (''https://'' @ Hostname ld) (fst (ReadAll res)) [Do ?req] =
       (out, [Do ?req] @ rest)"
    "rest = [] \<or>
      (\<exists>r. rest = [Do r] \<and> Method r = ''GET'' \<and> Body r = NoBody \<and>
           (''token'', gjson_String (gjson_Get (fst (ReadAll res)) [''sessionToken'']))
             \<in> set (RawQuery r))"
    using session_redirect_shape by blast
  from run shape show ?thesis
    by auto
qed

text \<open>
  Scenario A of the specification: the credentials are answered with status \<open>SUCCESS\<close>
  and the session token \<open>tok1\<close>, the redirect with a page whose \<open>SAMLResponse\<close> input
  has the value \<open>YXNzZXJ0aW9u\<close>.
\<close>

theorem no_mfa_branch_witness:
  "Authenticate (scripted [json_response (session_body ''tok1''), saml_page] 0 []) login =
     Some (Return ''YXNzZXJ0aW9u'' None, [Do authn_post, Do (redirect_get ''tok1'')])"
proof -
  let ?W = "scripted [json_response (session_body ''tok1''), saml_page] 0 []"
  let ?u = "\<lparr>Host = ''x.okta.com'', Query = []\<rparr>"
  let ?req0 = "\<lparr>Method = ''POST'', URL = ''https://x.okta.com/api/v1/authn'',
          RawQuery = [], Header = [],
          Body = AuthJSON \<lparr>username = ''u'', password = ''p''\<rparr>\<rparr>"
  have 1: "url_Parse ?W (''https://'' @ Hostname login) = Inr ?u"
    by (simp add: scripted_def login_def)
  have 2: "NewRequest ?W ''POST'' (''https://'' @ Host ?u @ ''/api/v1/authn'')
           (AuthJSON \<lparr>username = Username login, password = Password login\<rparr>) = Inr ?req0"
    by (simp add: NewRequest_def scripted_def login_def)
  have 3: "client_Do ?W []
           (Header_Add (Header_Add ?req0 ''Content-Type'' ''application/json'')
              ''Accept'' ''application/json'') = Inr (json_response (session_body ''tok1''))"
    by (simp add: scripted_def index_def)
  have 4: "gjson_String (gjson_Get (fst (ReadAll (json_response (session_body ''tok1''))))
              [''status'']) \<noteq> ''MFA_REQUIRED''"
    by (simp add: json_response_def session_body_def obj_def)
  have "Authenticate ?W login =
      Some (session_redirect ?W (Host ?u) (''https://'' @ Hostname login)
        (fst (ReadAll (json_response (session_body ''tok1''))))
        [Do (Header_Add (Header_Add ?req0 ''Content-Type'' ''application/json'')
                ''Accept'' ''application/json'')])"
    using no_mfa_branch [OF 1 2 3 4] by (rule conjunct1)
  also have "\<dots> = Some (Return ''YXNzZXJ0aW9u'' None, [Do authn_post, Do (redirect_get ''tok1'')])"
    by code_simp
  finally show ?thesis .
qed

subsection \<open>An unsupported factor\<close>

text \<open>
  Whatever the world, the selection of a factor whose identifier is not in the table
  returns at once, with the trace as it was: no request follows the selection. The
  error that is returned is \<^verbatim>\<open>errors.Wrap(err, "unsupported mfa provider")\<close>, where
  \<open>err\<close> is the error of reading the authentication response.
\<close>

lemma unsupported_factor_stops:
  assumes "supportedMfaOptions (parseMfaIdentifer env resp n) = None"
  shows "mfa_selected env h e st resp err n tr =
           Some (Return [] (Wrap err ''unsupported mfa provider''), tr)"
  using assms by (simp add: mfa_selected_def)

text \<open>
  Claim C1. The claim says that Authenticate fails with an "unsupported mfa provider"
  error and sends no further request. Scenario C of the specification: the only factor
  has the identifier \<open>UNKNOWN CUSTOM\<close>, and the authentication response was read
  without error. No request follows the authentication request, as the claim says; but
  the function returns the empty assertion with the error \<^verbatim>\<open>nil\<close>, since
  \<^verbatim>\<open>errors.Wrap\<close> of \<^verbatim>\<open>nil\<close> is \<^verbatim>\<open>nil\<close>.
\<close>

theorem unsupported_factor_returns_nil_error:
  "parseMfaIdentifer (scripted [json_response (mfa_required [factor ''f1'' ''UNKNOWN'' ''custom''])] 0 [])
     (mfa_required [factor ''f1'' ''UNKNOWN'' ''custom'']) 0 = ''UNKNOWN CUSTOM'' \<and>
   supportedMfaOptions ''UNKNOWN CUSTOM'' = None \<and>
   Authenticate (scripted [json_response (mfa_required [factor ''f1'' ''UNKNOWN'' ''custom''])] 0 [])
     login = Some (Return [] None, [Do authn_post])"
  by code_simp

subsection \<open>Identifiers and labels\<close>

text \<open>
  Claim C2, as stated, against the code: the identifier is not the upper case of the
  whole of \<open>provider factorType\<close>, because the provider keeps its case. For the provider
  \<open>okta\<close> and the factor type \<open>sms\<close> the identifier is \<open>okta SMS\<close>.
\<close>

theorem identifier_keeps_case_of_provider:
  "gjson_String (gjson_Get (mfa_required [factor ''f1'' ''okta'' ''sms''])
      [''_embedded'', ''factors'', ''0'', ''provider'']) = ''okta'' \<and>
   gjson_String (gjson_Get (mfa_required [factor ''f1'' ''okta'' ''sms''])
      [''_embedded'', ''factors'', ''0'', ''factorType'']) = ''sms'' \<and>
   parseMfaIdentifer (scripted [] 0 []) (mfa_required [factor ''f1'' ''okta'' ''sms'']) 0 =
     ''okta SMS'' \<and>
   strings_ToUpper (scripted [] 0 []) (''okta'' @ '' '' @ ''sms'') = ''OKTA SMS'' \<and>
   parseMfaIdentifer (scripted [] 0 []) (mfa_required [factor ''f1'' ''okta'' ''sms'']) 0 \<noteq>
     strings_ToUpper (scripted [] 0 []) (''okta'' @ '' '' @ ''sms'')"
  by code_simp

text \<open>
  Claim C2, amended. For the factor at index \<open>i\<close> of the factor array, the identifier
  is the provider as it is, a space, and \<^verbatim>\<open>strings.ToUpper\<close> of the factor type: a
  function of these two strings. This holds for every world, so for the upper-casing of
  Go, on every factor type, ASCII or not. When the identifier is not in the table, the
  label at index \<open>i\<close>
  is \<open>UNSUPPORTED: \<close> followed by the identifier, and selecting index \<open>i\<close> returns the
  empty assertion at once, with no further event.
\<close>

theorem identifier_and_label:
  assumes "gjson_Get resp [''_embedded'', ''factors''] = Some (JArray raw fs)"
    and "i < length fs"
  shows "parseMfaIdentifer env resp i =
           gjson_String (gjson_Get (fs ! i) [''provider'']) @ '' '' @
           strings_ToUpper env (gjson_String (gjson_Get (fs ! i) [''factorType''])) \<and>
         (supportedMfaOptions (parseMfaIdentifer env resp i) = None \<longrightarrow>
            mfaOptions env resp ! i = ''UNSUPPORTED: '' @ parseMfaIdentifer env resp i \<and>
            (\<exists>err'. mfa_selected env h e st resp err i tr = Some (Return [] err', tr)))"
proof -
  have ident: "parseMfaIdentifer env resp i =
           gjson_String (gjson_Get (fs ! i) [''provider'']) @ '' '' @
           strings_ToUpper env (gjson_String (gjson_Get (fs ! i) [''factorType'']))"
    unfolding parseMfaIdentifer_def Let_def factor_path [OF assms] ..
  have len: "i < length (gjson_Array (gjson_Get resp [''_embedded'', ''factors'']))"
    using assms by simp
  have label: "mfaOptions env resp ! i = ''UNSUPPORTED: '' @ parseMfaIdentifer env resp i"
    if "supportedMfaOptions (parseMfaIdentifer env resp i) = None"
    using that len by (simp add: mfaOptions_def Let_def del: gjson_Get.simps)
  have stop: "\<exists>err'. mfa_selected env h e st resp err i tr = Some (Return [] err', tr)"
    if "supportedMfaOptions (parseMfaIdentifer env resp i) = None"
    using that by (simp add: mfa_selected_def)
  from ident label stop show ?thesis
    by blast
qed

text \<open>The second of two factors, \<open>UNKNOWN custom\<close>.\<close>

theorem identifier_and_label_witness:
  "parseMfaIdentifer (scripted [] 0 [])
     (mfa_required [factor ''f1'' ''OKTA'' ''sms'', factor ''f2'' ''UNKNOWN'' ''custom'']) 1 =
     ''UNKNOWN CUSTOM'' \<and>
   supportedMfaOptions ''UNKNOWN CUSTOM'' = None \<and>
   mfaOptions (scripted [] 0 [])
     (mfa_required [factor ''f1'' ''OKTA'' ''sms'', factor ''f2'' ''UNKNOWN'' ''custom'']) ! 1 =
     ''UNSUPPORTED: UNKNOWN CUSTOM'' \<and>
   mfa_selected (scripted [] 0 []) ''x.okta.com'' ''https://x.okta.com'' ''st1''
     (mfa_required [factor ''f1'' ''OKTA'' ''sms'', factor ''f2'' ''UNKNOWN'' ''custom'']) None 1 [] =
     Some (Return [] None, [])"
proof -
  let ?fs = "[factor ''f1'' ''OKTA'' ''sms'', factor ''f2'' ''UNKNOWN'' ''custom'']"
  let ?resp = "mfa_required ?fs"
  have 1: "gjson_Get ?resp [''_embedded'', ''factors''] = Some (JArray [] ?fs)"
    by (simp add: mfa_required_def obj_def)
  have 2: "(1::nat) < length ?fs"
    by simp
  have prov: "gjson_String (gjson_Get (?fs ! 1) [''provider'']) = ''UNKNOWN''"
    by (simp add: factor_def obj_def)
  have ty: "strings_ToUpper (scripted [] 0 [])
      (gjson_String (gjson_Get (?fs ! 1) [''factorType''])) = ''CUSTOM''"
    by code_simp
  have none: "supportedMfaOptions ''UNKNOWN CUSTOM'' = None"
    by code_simp
  note inst = identifier_and_label [OF 1 2, of "scripted [] 0 []" "''x.okta.com''"
      "''https://x.okta.com''" "''st1''" None "[]"]
  from inst have ident: "parseMfaIdentifer (scripted [] 0 []) ?resp 1 = ''UNKNOWN CUSTOM''"
    unfolding prov ty by simp
  from inst ident none have
    "mfaOptions (scripted [] 0 []) ?resp ! 1 = ''UNSUPPORTED: '' @ ''UNKNOWN CUSTOM''"
    "\<exists>err'. mfa_selected (scripted [] 0 []) ''x.okta.com'' ''https://x.okta.com'' ''st1''
       ?resp None 1 [] = Some (Return [] err', [])"
    by simp_all
  moreover have "mfa_selected (scripted [] 0 []) ''x.okta.com'' ''https://x.okta.com'' ''st1''
       ?resp None 1 [] = Some (Return [] None, [])"
    by code_simp
  ultimately show ?thesis
    using ident none by simp
qed

subsection \<open>A page without the assertion\<close>

text \<open>
  Claim C3. The claim says that Authenticate fails with an error when the page of the
  redirect has no \<open>SAMLResponse\<close> input, and returns the value of the input otherwise.
  The second half holds (see \<open>session_redirect_found\<close>). For the first half, the page
  here has no input at all: the function returns the empty assertion with the error
  \<^verbatim>\<open>nil\<close>, since \<open>err\<close> is \<^verbatim>\<open>nil\<close> after the document was parsed and
  \<^verbatim>\<open>errors.Wrap\<close> of \<^verbatim>\<open>nil\<close> is \<^verbatim>\<open>nil\<close>.
\<close>

theorem missing_saml_response_returns_nil_error:
  "Authenticate (scripted [json_response (session_body ''tok1''), html_response []] 0 []) login =
     Some (Return [] None, [Do authn_post, Do (redirect_get ''tok1'')])"
  by code_simp

subsection \<open>The poll loop\<close>

text \<open>
  A result that is neither \<open>FAILURE\<close> nor \<open>SUCCESS\<close> continues the loop: the loop after
  the sleep, the request and the printed status is the loop again.
\<close>

lemma poll_continues:
  assumes "NewRequest env ''POST'' u (Form f) = Inr req0"
    and "client_Do env (tr @ [Sleep 3])
           (Header_Add req0 ''Content-Type'' ''application/x-www-form-urlencoded'') = Inr res"
    and "gjson_String (gjson_Get (fst (ReadAll res)) [''response'', ''result'']) \<noteq> ''FAILURE''"
    and "gjson_String (gjson_Get (fst (ReadAll res)) [''response'', ''result'']) \<noteq> ''SUCCESS''"
  shows "duo_poll env u f tr =
           duo_poll env u f
             (tr @ [Sleep 3,
                    Do (Header_Add req0 ''Content-Type'' ''application/x-www-form-urlencoded''),
                    Println (gjson_String (gjson_Get (fst (ReadAll res)) [''response'', ''status'']))])"
  using assms by (subst duo_poll.simps) (simp add: Let_def)

text \<open>
  The status results \<open>WAITING\<close>, \<open>WAITING\<close>, \<open>SUCCESS\<close>: two sleeps, and the callback
  carries the cookie of the third response.
\<close>

lemma poll_waiting_waiting_success:
  "map_option fst (Authenticate (scripted (duo_script ''AAA:BBB''
       [duo_status_body ''WAITING'' ''c1'', duo_status_body ''WAITING'' ''c2'',
        duo_status_body ''SUCCESS'' ''c3'']) 1 []) login) =
     Some (Return ''YXNzZXJ0aW9u'' None) \<and>
   map_option (filter is_Sleep \<circ> snd) (Authenticate (scripted (duo_script ''AAA:BBB''
       [duo_status_body ''WAITING'' ''c1'', duo_status_body ''WAITING'' ''c2'',
        duo_status_body ''SUCCESS'' ''c3'']) 1 []) login) =
     Some [Sleep 3, Sleep 3] \<and>
   map_option (concat \<circ> map (\<lambda>r. form_values r ''sig_response'') \<circ> requests \<circ> snd)
     (Authenticate (scripted (duo_script ''AAA:BBB''
       [duo_status_body ''WAITING'' ''c1'', duo_status_body ''WAITING'' ''c2'',
        duo_status_body ''SUCCESS'' ''c3'']) 1 []) login) =
     Some [''c3:BBB'']"
  by code_simp

text \<open>
  Claim C4. The claim says that on the status results \<open>WAITING\<close>, \<open>FAILURE\<close> the
  function fails with a device-authentication error after the second response, without
  further polling. With these results there is one sleep and there are two status
  requests, none after the second response, as the claim says; but the function returns
  the empty assertion with the error \<^verbatim>\<open>nil\<close>, since \<open>err\<close> is the error of reading
  the status response and \<^verbatim>\<open>errors.Wrap\<close> of \<^verbatim>\<open>nil\<close> is \<^verbatim>\<open>nil\<close>.
\<close>

theorem poll_failure_returns_nil_error:
  "map_option fst (Authenticate (scripted (duo_script ''AAA:BBB''
       [duo_status_body ''WAITING'' ''c1'', duo_status_body ''FAILURE'' ''c2'']) 1 []) login) =
     Some (Return [] None) \<and>
   map_option (map URL \<circ> requests \<circ> snd) (Authenticate (scripted (duo_script ''AAA:BBB''
       [duo_status_body ''WAITING'' ''c1'', duo_status_body ''FAILURE'' ''c2'']) 1 []) login) =
     Some [''https://x.okta.com/api/v1/authn'', ''https://x/verify'',
           ''https://duo.example/frame/web/v1/auth'', ''https://duo.example/frame/prompt'',
           ''https://duo.example/frame/status'', ''https://duo.example/frame/status''] \<and>
   map_option (filter is_Sleep \<circ> snd) (Authenticate (scripted (duo_script ''AAA:BBB''
       [duo_status_body ''WAITING'' ''c1'', duo_status_body ''FAILURE'' ''c2'']) 1 []) login) =
     Some [Sleep 3]"
  by code_simp

subsection \<open>The two signatures\<close>

text \<open>
  Claim C5. When the signature of the verify response is \<open>a:b\<close> with no colon in \<open>a\<close>
  and \<open>b\<close>, the two signatures are \<open>a\<close> and \<open>b\<close>; in every run of the Duo branch that
  returns, the first request of the branch has \<open>a\<close> as its \<open>tx\<close> query parameter, and
  every \<open>sig_response\<close> that is sent is the cookie of the status response just before
  it, a colon, and \<open>b\<close>.
\<close>

theorem duo_signature_threading:
  assumes "CHR '':'' \<notin> set a" and "CHR '':'' \<notin> set b"
    and "gjson_String (gjson_Get resp
           [''_embedded'', ''factor'', ''_embedded'', ''verification'', ''signature'']) =
         a @ '':'' @ b"
    and "duo_auth env h e st fid verify resp tr = Some (out, tr')"
  shows "Split (a @ '':'' @ b) CHR '':'' = [a, b] \<and>
         (\<exists>new. tr' = tr @ new \<and>
            events_ok (sig_response_ok env b) tr new \<and>
            (\<forall>pu. url_Parse env (''https://'' @ gjson_String (gjson_Get resp
                      [''_embedded'', ''factor'', ''_embedded'', ''verification'', ''host''])
                      @ ''/frame/web/v1/auth'') = Inr pu \<longrightarrow>
               (\<exists>r rest. new = Do r # rest \<and> RawQuery r = Query pu @ [(''tx'', a)])))"
proof -
  let ?sig = "gjson_String (gjson_Get resp
           [''_embedded'', ''factor'', ''_embedded'', ''verification'', ''signature''])"
  have split: "Split (a @ '':'' @ b) CHR '':'' = [a, b]"
    using Split_two [OF assms(1,2)] by simp
  with assms(3) have sigs: "Split ?sig CHR '':'' = [a, b]"
    by simp
  have "\<And>x. index (Split ?sig CHR '':'') 1 = Some x \<Longrightarrow> x = b"
    unfolding sigs by (simp add: index_def)
  from duo_auth_events [OF assms(4) this] obtain new where
    new: "tr' = tr @ new" "events_ok (later_event env st b) tr new"
    by blast
  from new(2) have ok: "events_ok (sig_response_ok env b) tr new"
    by (rule later_sig)
  have tx: "index (Split ?sig CHR '':'') 0 = Some a"
    unfolding sigs by (simp add: index_def)
  have first: "\<exists>r rest. new = Do r # rest \<and> RawQuery r = Query pu @ [(''tx'', a)]"
    if "url_Parse env (''https://'' @ gjson_String (gjson_Get resp
          [''_embedded'', ''factor'', ''_embedded'', ''verification'', ''host''])
          @ ''/frame/web/v1/auth'') = Inr pu" for pu
    using duo_auth_first_request [OF assms(4) that tx] new(1) by auto
  from split new(1) ok first show ?thesis
    by blast
qed

text \<open>The push that is approved at the third status response, with the signature \<open>AAA:BBB\<close>.\<close>

theorem duo_signature_threading_witness:
  "duo_auth (scripted duo_push_script 1 []) ''x.okta.com'' ''https://x.okta.com'' ''st1'' ''f1''
     ''https://x/verify'' (duo_verify ''AAA:BBB'') [Do authn_post, Do (verify_post [])] =
     Some (Return ''YXNzZXJ0aW9u'' None,
       [Do authn_post, Do (verify_post [])] @
       drop 2 (snd (the (duo_auth (scripted duo_push_script 1 []) ''x.okta.com''
         ''https://x.okta.com'' ''st1'' ''f1'' ''https://x/verify'' (duo_verify ''AAA:BBB'')
         [Do authn_post, Do (verify_post [])])))) \<and>
   Split ''AAA:BBB'' CHR '':'' = [''AAA'', ''BBB''] \<and>
   events_ok (sig_response_ok (scripted duo_push_script 1 []) ''BBB'')
     [Do authn_post, Do (verify_post [])]
     (drop 2 (snd (the (duo_auth (scripted duo_push_script 1 []) ''x.okta.com''
         ''https://x.okta.com'' ''st1'' ''f1'' ''https://x/verify'' (duo_verify ''AAA:BBB'')
         [Do authn_post, Do (verify_post [])])))) \<and>
   map RawQuery (take 1 (requests (drop 2 (snd (the (duo_auth (scripted duo_push_script 1 [])
         ''x.okta.com'' ''https://x.okta.com'' ''st1'' ''f1'' ''https://x/verify''
         (duo_verify ''AAA:BBB'') [Do authn_post, Do (verify_post [])])))))) =
     [ [(''tx'', ''AAA'')] ] \<and>
   concat (map (\<lambda>r. form_values r ''sig_response'')
     (requests (snd (the (duo_auth (scripted duo_push_script 1 []) ''x.okta.com''
         ''https://x.okta.com'' ''st1'' ''f1'' ''https://x/verify'' (duo_verify ''AAA:BBB'')
         [Do authn_post, Do (verify_post [])]))))) = [''c3:BBB'']"
proof -
  let ?W = "scripted duo_push_script 1 []"
  let ?tr = "[Do authn_post, Do (verify_post [])]"
  let ?run = "duo_auth ?W ''x.okta.com'' ''https://x.okta.com'' ''st1'' ''f1''
     ''https://x/verify'' (duo_verify ''AAA:BBB'') ?tr"
  let ?new = "drop 2 (snd (the ?run))"
  have 1: "CHR '':'' \<notin> set ''AAA''" and 2: "CHR '':'' \<notin> set ''BBB''"
    by simp_all
  have 3: "gjson_String (gjson_Get (duo_verify ''AAA:BBB'')
           [''_embedded'', ''factor'', ''_embedded'', ''verification'', ''signature'']) =
         ''AAA'' @ '':'' @ ''BBB''"
    by code_simp
  have 4: "?run = Some (Return ''YXNzZXJ0aW9u'' None, ?tr @ ?new)"
    by code_simp
  from duo_signature_threading [OF 1 2 3 4] obtain new where
    new: "?tr @ ?new = ?tr @ new" "events_ok (sig_response_ok ?W ''BBB'') ?tr new"
    and split: "Split (''AAA'' @ '':'' @ ''BBB'') CHR '':'' = [''AAA'', ''BBB'']"
    by blast
  from new have ok: "events_ok (sig_response_ok ?W ''BBB'') ?tr ?new"
    by simp
  have tx: "map RawQuery (take 1 (requests ?new)) = [ [(''tx'', ''AAA'')] ]"
    by code_simp
  have sig: "concat (map (\<lambda>r. form_values r ''sig_response'') (requests (snd (the ?run)))) =
      [''c3:BBB'']"
    by code_simp
  from split have split': "Split ''AAA:BBB'' CHR '':'' = [''AAA'', ''BBB'']"
    by simp
  from 4 split' ok tx sig show ?thesis
    by (intro conjI)
qed

subsection \<open>The state token\<close>

lemma requests_append: "requests (xs @ ys) = requests xs @ requests ys"
  by (induction xs rule: requests.induct) simp_all

lemma flow_no_factor_choice:
  "list_all (flow_event st) new \<Longrightarrow> filter is_factor_choice new = []"
proof (induction new)
  case Nil
  then show ?case by simp
next
  case (Cons e es)
  then show ?case
    by (cases e) (simp_all add: flow_event_def)
qed

lemma flow_requests:
  "list_all (flow_event st) new \<Longrightarrow> list_all (token_ok st) (requests new)"
proof (induction new)
  case Nil
  then show ?case by simp
next
  case (Cons e es)
  then show ?case
    by (cases e) (simp_all add: flow_event_def)
qed

lemma mfa_select_flow:
  assumes "mfa_select env h e st resp err tr = Some (out, tr')"
  shows "\<exists>new. tr' = tr @ new \<and> list_all (token_ok st) (requests new)"
proof (cases "1 < length (mfaOptions env resp)")
  case True
  with assms have "mfa_selected env h e st resp err
      (prompt_Choose env factor_prompt (mfaOptions env resp))
      (tr @ [Choose factor_prompt (mfaOptions env resp)]) = Some (out, tr')"
    by (simp add: mfa_select_def)
  from mfa_selected_flow [OF this] obtain new where
    new: "tr' = (tr @ [Choose factor_prompt (mfaOptions env resp)]) @ new"
      "list_all (flow_event st) new"
    by blast
  from new(2) have "list_all (token_ok st) (requests new)"
    by (rule flow_requests)
  with new(1) have "tr' = tr @ (Choose factor_prompt (mfaOptions env resp) # new) \<and>
      list_all (token_ok st) (requests (Choose factor_prompt (mfaOptions env resp) # new))"
    by simp
  then show ?thesis
    by blast
next
  case False
  with assms have "mfa_selected env h e st resp err 0 tr = Some (out, tr')"
    by (simp add: mfa_select_def)
  from mfa_selected_flow [OF this] flow_requests show ?thesis
    by blast
qed

text \<open>
  Claim C7. In every run that returns, every request after the authentication request
  that carries a state token carries the one of the authentication response: each
  verify request has it as its \<open>stateToken\<close>, and the callback with the
  \<open>sig_response\<close> has it as its only \<open>stateToken\<close> value.
\<close>

theorem state_token_threaded:
  assumes "Authenticate env ld = Some (out, Do r0 # rest)"
    and "client_Do env [] r0 = Inr res"
  shows "list_all (token_ok (gjson_String (gjson_Get (fst (ReadAll res)) [''stateToken''])))
           (requests rest) \<and>
         (\<forall>r v. r \<in> set (requests rest) \<and> Body r = VerifyJSON v \<longrightarrow>
            StateToken v = gjson_String (gjson_Get (fst (ReadAll res)) [''stateToken''])) \<and>
         (\<forall>r. r \<in> set (requests rest) \<and> form_values r ''sig_response'' \<noteq> [] \<longrightarrow>
            form_values r ''stateToken'' =
              [gjson_String (gjson_Get (fst (ReadAll res)) [''stateToken''])])"
proof -
  let ?st = "gjson_String (gjson_Get (fst (ReadAll res)) [''stateToken''])"
  have main: "list_all (token_ok ?st) (requests rest)"
  proof (cases "url_Parse env (''https://'' @ Hostname ld)")
    case (Inl err)
    with assms(1) show ?thesis
      by (simp add: Authenticate_def)
  next
    case u: (Inr u)
    show ?thesis
    proof (cases "NewRequest env ''POST'' (''https://'' @ Host u @ ''/api/v1/authn'')
        (AuthJSON \<lparr>username = Username ld, password = Password ld\<rparr>)")
      case (Inl err)
      with assms(1) u show ?thesis
        by (simp add: Authenticate_def Let_def)
    next
      case req0: (Inr req0)
      define req where "req = Header_Add (Header_Add req0 ''Content-Type'' ''application/json'')
          ''Accept'' ''application/json''"
      show ?thesis
      proof (cases "client_Do env [] req")
        case (Inl err)
        with assms(1) u req0 show ?thesis
          unfolding req_def by (auto simp: Authenticate_def Let_def)
      next
        case res': (Inr res')
        show ?thesis
        proof (cases "gjson_String (gjson_Get (fst (ReadAll res')) [''status'']) = ''MFA_REQUIRED''")
          case True
          with assms(1) u req0 res' have run:
            "mfa_select env (Host u) (''https://'' @ Hostname ld)
               (gjson_String (gjson_Get (fst (ReadAll res')) [''stateToken'']))
               (fst (ReadAll res')) (snd (ReadAll res')) [Do req] = Some (out, Do r0 # rest)"
            unfolding req_def by (simp add: Authenticate_def Let_def)
          from mfa_select_flow [OF run] obtain new where
            new: "Do r0 # rest = [Do req] @ new"
              "list_all (token_ok (gjson_String (gjson_Get (fst (ReadAll res'))
                 [''stateToken'']))) (requests new)"
            by blast
          from new(1) have "r0 = req" "rest = new"
            by simp_all
          with new(2) res' assms(2) show ?thesis
            by simp
        next
          case False
          with assms(1) u req0 res' have run:
            "session_redirect env (Host u) (''https://'' @ Hostname ld) (fst (ReadAll res'))
               [Do req] = (out, Do r0 # rest)"
            unfolding req_def by (simp add: Authenticate_def Let_def)
          from session_redirect_flow [OF run, of ?st] obtain new where
            new: "Do r0 # rest = [Do req] @ new" "list_all (flow_event ?st) new"
            by blast
          from new(1) have "rest = new"
            by simp
          with new(2) show ?thesis
            by (simp add: flow_requests)
        qed
      qed
    qed
  qed
  have ok: "token_ok ?st r" if "r \<in> set (requests rest)" for r
    using main that by (simp add: list_all_iff)
  have verify: "StateToken v = ?st" if "r \<in> set (requests rest)" "Body r = VerifyJSON v" for r v
    using ok [OF that(1)] that(2) by (simp add: token_ok_def state_tokens_def)
  have callback: "form_values r ''stateToken'' = [?st]"
    if "r \<in> set (requests rest)" "form_values r ''sig_response'' \<noteq> []" for r
    using ok [OF that(1)] that(2)
    by (cases "Body r") (simp_all add: token_ok_def state_tokens_def form_values_def)
  from main verify callback show ?thesis
    by blast
qed

text \<open>The Duo push: the verify request, the callback and the last verify request carry \<open>st1\<close>.\<close>

theorem state_token_threaded_witness:
  "Authenticate (scripted duo_push_script 1 []) login =
     Some (Return ''YXNzZXJ0aW9u'' None,
           Do authn_post # tl (snd (the (Authenticate (scripted duo_push_script 1 []) login)))) \<and>
   client_Do (scripted duo_push_script 1 []) [] authn_post =
     Inr (json_response (mfa_required [factor ''f1'' ''DUO'' ''web''])) \<and>
   list_all (token_ok ''st1'')
     (requests (tl (snd (the (Authenticate (scripted duo_push_script 1 []) login))))) \<and>
   map state_tokens
     (requests (tl (snd (the (Authenticate (scripted duo_push_script 1 []) login))))) =
     [ [''st1''], [], [], [], [], [], [''st1''], [''st1''], [] ]"
proof -
  let ?W = "scripted duo_push_script 1 []"
  let ?rest = "tl (snd (the (Authenticate ?W login)))"
  have 1: "Authenticate ?W login = Some (Return ''YXNzZXJ0aW9u'' None, Do authn_post # ?rest)"
    by code_simp
  have 2: "client_Do ?W [] authn_post =
      Inr (json_response (mfa_required [factor ''f1'' ''DUO'' ''web'']))"
    by code_simp
  have st: "gjson_String (gjson_Get (fst (ReadAll
      (json_response (mfa_required [factor ''f1'' ''DUO'' ''web''])))) [''stateToken'']) = ''st1''"
    by code_simp
  have 3: "list_all (token_ok ''st1'') (requests ?rest)"
    using state_token_threaded [OF 1 2] unfolding st by (rule conjunct1)
  have 4: "map state_tokens (requests ?rest) =
      [ [''st1''], [], [], [], [], [], [''st1''], [''st1''], [] ]"
    by code_simp
  from 1 2 3 4 show ?thesis
    by (intro conjI)
qed

subsection \<open>The chooser\<close>

lemma length_mfaOptions:
  "length (mfaOptions env resp) = length (gjson_Array (gjson_Get resp [''_embedded'', ''factors'']))"
  by (simp add: mfaOptions_def del: gjson_Get.simps)

text \<open>
  Claim C8. There are as many labels as factors, the label at an index is the label of
  the factor at that index, with more than one factor the selection asks the chooser
  with these labels and continues with its answer, with at most one factor it continues
  with index 0 and the trace as it was; so a run of the selection that returns has
  asked the chooser for the factor exactly once when there is more than one factor, and
  not at all otherwise.
\<close>

theorem chooser_iff_several_factors:
  "length (mfaOptions env resp) = length (gjson_Array (gjson_Get resp [''_embedded'', ''factors''])) \<and>
   (\<forall>i < length (gjson_Array (gjson_Get resp [''_embedded'', ''factors''])).
      mfaOptions env resp ! i =
        (case supportedMfaOptions (parseMfaIdentifer env resp i) of
           Some val \<Rightarrow> val
         | None \<Rightarrow> ''UNSUPPORTED: '' @ parseMfaIdentifer env resp i)) \<and>
   (1 < length (gjson_Array (gjson_Get resp [''_embedded'', ''factors''])) \<longrightarrow>
      mfa_select env h e st resp err tr =
        mfa_selected env h e st resp err (prompt_Choose env factor_prompt (mfaOptions env resp))
          (tr @ [Choose factor_prompt (mfaOptions env resp)])) \<and>
   (length (gjson_Array (gjson_Get resp [''_embedded'', ''factors''])) \<le> 1 \<longrightarrow>
      mfa_select env h e st resp err tr = mfa_selected env h e st resp err 0 tr) \<and>
   (\<forall>out tr'. mfa_select env h e st resp err tr = Some (out, tr') \<longrightarrow>
      (\<exists>new. tr' = tr @ new \<and>
         filter is_factor_choice new =
           (if 1 < length (gjson_Array (gjson_Get resp [''_embedded'', ''factors'']))
            then [Choose factor_prompt (mfaOptions env resp)] else [])))"
proof -
  let ?F = "gjson_Array (gjson_Get resp [''_embedded'', ''factors''])"
  have len: "length (mfaOptions env resp) = length ?F"
    by (rule length_mfaOptions)
  have labels: "\<forall>i < length ?F. mfaOptions env resp ! i =
        (case supportedMfaOptions (parseMfaIdentifer env resp i) of
           Some val \<Rightarrow> val
         | None \<Rightarrow> ''UNSUPPORTED: '' @ parseMfaIdentifer env resp i)"
    by (auto simp: mfaOptions_def Let_def simp del: gjson_Get.simps split: option.splits)
  have many: "mfa_select env h e st resp err tr =
        mfa_selected env h e st resp err (prompt_Choose env factor_prompt (mfaOptions env resp))
          (tr @ [Choose factor_prompt (mfaOptions env resp)])" if "1 < length ?F"
    using that len by (simp add: mfa_select_def del: gjson_Get.simps)
  have few: "mfa_select env h e st resp err tr = mfa_selected env h e st resp err 0 tr"
    if "length ?F \<le> 1"
    using that len by (simp add: mfa_select_def del: gjson_Get.simps)
  have events: "\<exists>new. tr' = tr @ new \<and>
         filter is_factor_choice new =
           (if 1 < length ?F then [Choose factor_prompt (mfaOptions env resp)] else [])"
    if run: "mfa_select env h e st resp err tr = Some (out, tr')" for out tr'
  proof (cases "1 < length ?F")
    case True
    with run many have "mfa_selected env h e st resp err
        (prompt_Choose env factor_prompt (mfaOptions env resp))
        (tr @ [Choose factor_prompt (mfaOptions env resp)]) = Some (out, tr')"
      by simp
    from mfa_selected_flow [OF this] obtain new where
      new: "tr' = (tr @ [Choose factor_prompt (mfaOptions env resp)]) @ new"
        "list_all (flow_event st) new"
      by blast
    from new(2) have "filter is_factor_choice new = []"
      by (rule flow_no_factor_choice)
    with new(1) True have "tr' = tr @ (Choose factor_prompt (mfaOptions env resp) # new) \<and>
        filter is_factor_choice (Choose factor_prompt (mfaOptions env resp) # new) =
          (if 1 < length ?F then [Choose factor_prompt (mfaOptions env resp)] else [])"
      by simp
    then show ?thesis
      by blast
  next
    case False
    with run few have "mfa_selected env h e st resp err 0 tr = Some (out, tr')"
      by simp
    from mfa_selected_flow [OF this] obtain new where
      new: "tr' = tr @ new" "list_all (flow_event st) new"
      by blast
    from new(2) have "filter is_factor_choice new = []"
      by (rule flow_no_factor_choice)
    with new(1) False show ?thesis
      by auto
  qed
  from len labels many few events show ?thesis
    by blast
qed

text \<open>Two factors, where the chooser gives index 0, and one factor.\<close>

theorem chooser_iff_several_factors_witness:
  "length (gjson_Array (gjson_Get two_factors [''_embedded'', ''factors''])) = 2 \<and>
   mfaOptions (scripted two_factor_script 0 ''123456'') two_factors =
     [''SMS MFA authentication'', ''UNSUPPORTED: UNKNOWN CUSTOM''] \<and>
   mfa_select (scripted two_factor_script 0 ''123456'') ''x.okta.com'' ''https://x.okta.com''
     ''st1'' two_factors None [Do authn_post] =
   Some (Return ''YXNzZXJ0aW9u'' None,
     [Do authn_post, Choose factor_prompt [''SMS MFA authentication'', ''UNSUPPORTED: UNKNOWN CUSTOM''],
      Do (verify_post []), StringRequired ''Enter verification code'',
      Do (verify_post ''123456''), Do (redirect_get ''tok2'')]) \<and>
   length (gjson_Array (gjson_Get (mfa_required [factor ''f1'' ''OKTA'' ''sms''])
     [''_embedded'', ''factors''])) = 1 \<and>
   mfa_select (scripted sms_script 0 ''123456'') ''x.okta.com'' ''https://x.okta.com''
     ''st1'' (mfa_required [factor ''f1'' ''OKTA'' ''sms'']) None [Do authn_post] =
   Some (Return ''YXNzZXJ0aW9u'' None,
     [Do authn_post, Do (verify_post []), StringRequired ''Enter verification code'',
      Do (verify_post ''123456''), Do (redirect_get ''tok2'')])"
proof -
  let ?W = "scripted two_factor_script 0 ''123456''"
  let ?V = "scripted sms_script 0 ''123456''"
  let ?one = "mfa_required [factor ''f1'' ''OKTA'' ''sms'']"
  have two: "length (gjson_Array (gjson_Get two_factors [''_embedded'', ''factors''])) = 2"
    by code_simp
  have one: "length (gjson_Array (gjson_Get ?one [''_embedded'', ''factors''])) = 1"
    by code_simp
  have opts: "mfaOptions ?W two_factors =
      [''SMS MFA authentication'', ''UNSUPPORTED: UNKNOWN CUSTOM'']"
    by code_simp
  have "mfa_select ?W ''x.okta.com'' ''https://x.okta.com'' ''st1'' two_factors None [Do authn_post] =
      mfa_selected ?W ''x.okta.com'' ''https://x.okta.com'' ''st1'' two_factors None
        (prompt_Choose ?W factor_prompt (mfaOptions ?W two_factors))
        ([Do authn_post] @ [Choose factor_prompt (mfaOptions ?W two_factors)])"
    using chooser_iff_several_factors [of ?W two_factors "''x.okta.com''" "''https://x.okta.com''"
        "''st1''" None "[Do authn_post]"] two
    by simp
  also have "\<dots> = Some (Return ''YXNzZXJ0aW9u'' None,
     [Do authn_post, Choose factor_prompt [''SMS MFA authentication'', ''UNSUPPORTED: UNKNOWN CUSTOM''],
      Do (verify_post []), StringRequired ''Enter verification code'',
      Do (verify_post ''123456''), Do (redirect_get ''tok2'')])"
    by code_simp
  finally have many: "mfa_select ?W ''x.okta.com'' ''https://x.okta.com'' ''st1'' two_factors None
      [Do authn_post] = Some (Return ''YXNzZXJ0aW9u'' None,
     [Do authn_post, Choose factor_prompt [''SMS MFA authentication'', ''UNSUPPORTED: UNKNOWN CUSTOM''],
      Do (verify_post []), StringRequired ''Enter verification code'',
      Do (verify_post ''123456''), Do (redirect_get ''tok2'')])" .
  have "mfa_select ?V ''x.okta.com'' ''https://x.okta.com'' ''st1'' ?one None [Do authn_post] =
      mfa_selected ?V ''x.okta.com'' ''https://x.okta.com'' ''st1'' ?one None 0 [Do authn_post]"
    using chooser_iff_several_factors [of ?V ?one "''x.okta.com''" "''https://x.okta.com''"
        "''st1''" None "[Do authn_post]"] one
    by simp
  also have "\<dots> = Some (Return ''YXNzZXJ0aW9u'' None,
     [Do authn_post, Do (verify_post []), StringRequired ''Enter verification code'',
      Do (verify_post ''123456''), Do (redirect_get ''tok2'')])"
    by code_simp
  finally have few: "mfa_select ?V ''x.okta.com'' ''https://x.okta.com'' ''st1'' ?one None
      [Do authn_post] = Some (Return ''YXNzZXJ0aW9u'' None,
     [Do authn_post, Do (verify_post []), StringRequired ''Enter verification code'',
      Do (verify_post ''123456''), Do (redirect_get ''tok2'')])" .
  from two opts many one few show ?thesis
    by (intro conjI)
qed

subsection \<open>SMS and TOTP\<close>

text \<open>
  Claim C9. For the identifiers of SMS and TOTP, when the two verify requests can be
  built and are answered, the branch is: the verify request with the state token only,
  the text prompt, the verify request with the state token and the passcode, and then
  the session token exchange on the body of the second response; after these three
  events there is at most the redirect request, with the session token of the second
  response.
\<close>

theorem sms_totp_two_verify_calls:
  assumes "ident = IdentifierSmsMfa \<or> ident = IdentifierTotpMfa"
    and "NewRequest env ''POST'' verify (VerifyJSON \<lparr>StateToken = st, PassCode = []\<rparr>) = Inr req1"
    and "client_Do env tr
           (Header_Add (Header_Add req1 ''Content-Type'' ''application/json'')
              ''Accept'' ''application/json'') = Inr res1"
    and "NewRequest env ''POST'' verify
           (VerifyJSON \<lparr>StateToken = st,
              PassCode = prompt_StringRequired env ''Enter verification code''\<rparr>) = Inr req2"
    and "client_Do env
           (tr @ [Do (Header_Add (Header_Add req1 ''Content-Type'' ''application/json'')
                    ''Accept'' ''application/json''),
                  StringRequired ''Enter verification code''])
           (Header_Add (Header_Add req2 ''Content-Type'' ''application/json'')
              ''Accept'' ''application/json'') = Inr res2"
  shows "mfa_verify env h e st fid verify ident tr =
           Some (session_redirect env h e (fst (ReadAll res2))
             (tr @ [Do (Header_Add (Header_Add req1 ''Content-Type'' ''application/json'')
                      ''Accept'' ''application/json''),
                    StringRequired ''Enter verification code'',
                    Do (Header_Add (Header_Add req2 ''Content-Type'' ''application/json'')
                      ''Accept'' ''application/json'')])) \<and>
         (\<exists>out rest. mfa_verify env h e st fid verify ident tr =
            Some (out,
              tr @ [Do (Header_Add (Header_Add req1 ''Content-Type'' ''application/json'')
                      ''Accept'' ''application/json''),
                    StringRequired ''Enter verification code'',
                    Do (Header_Add (Header_Add req2 ''Content-Type'' ''application/json'')
                      ''Accept'' ''application/json'')] @ rest) \<and>
            (rest = [] \<or>
             (\<exists>r. rest = [Do r] \<and> Method r = ''GET'' \<and> Body r = NoBody \<and>
                (''token'', gjson_String (gjson_Get (fst (ReadAll res2)) [''sessionToken'']))
                  \<in> set (RawQuery r)))) \<and>
         Body req1 = VerifyJSON \<lparr>StateToken = st, PassCode = []\<rparr> \<and>
         Body req2 = VerifyJSON \<lparr>StateToken = st,
              PassCode = prompt_StringRequired env ''Enter verification code''\<rparr>"
proof -
  let ?r1 = "Header_Add (Header_Add req1 ''Content-Type'' ''application/json'')
               ''Accept'' ''application/json''"
  let ?r2 = "Header_Add (Header_Add req2 ''Content-Type'' ''application/json'')
               ''Accept'' ''application/json''"
  let ?tr = "tr @ [Do ?r1, StringRequired ''Enter verification code'', Do ?r2]"
  have post: "token_post env h e st verify (tr @ [Do ?r1]) =
      session_redirect env h e (fst (ReadAll res2)) ?tr"
    using assms(4,5) by (simp add: token_post_def Let_def)
  have run: "mfa_verify env h e st fid verify ident tr =
      Some (session_redirect env h e (fst (ReadAll res2)) ?tr)"
    using assms(1,2,3) post by (auto simp: mfa_verify_def Let_def)
  obtain out rest where shape:
    "session_redirect env h e (fst (ReadAll res2)) ?tr = (out, ?tr @ rest)"
    "rest = [] \<or>
      (\<exists>r. rest = [Do r] \<and> Method r = ''GET'' \<and> Body r = NoBody \<and>
           (''token'', gjson_String (gjson_Get (fst (ReadAll res2)) [''sessionToken'']))
             \<in> set (RawQuery r))"
    using session_redirect_shape by blast
  have bodies: "Body req1 = VerifyJSON \<lparr>StateToken = st, PassCode = []\<rparr>"
    "Body req2 = VerifyJSON \<lparr>StateToken = st,
              PassCode = prompt_StringRequired env ''Enter verification code''\<rparr>"
    using assms(2,4) by (auto dest: NewRequest_Inr)
  from run shape bodies show ?thesis
    by auto
qed

text \<open>Scenario B, from the selection of the SMS factor on.\<close>

theorem sms_totp_two_verify_calls_witness:
  "mfa_verify (scripted sms_script 0 ''123456'') ''x.okta.com'' ''https://x.okta.com'' ''st1'' ''f1''
     ''https://x/verify'' ''OKTA SMS'' [Do authn_post] =
   Some (Return ''YXNzZXJ0aW9u'' None,
     [Do authn_post, Do (verify_post []), StringRequired ''Enter verification code'',
      Do (verify_post ''123456''), Do (redirect_get ''tok2'')])"
proof -
  let ?W = "scripted sms_script 0 ''123456''"
  let ?req = "\<lambda>code. \<lparr>Method = ''POST'', URL = ''https://x/verify'', RawQuery = [], Header = [],
      Body = VerifyJSON \<lparr>StateToken = ''st1'', PassCode = code\<rparr>\<rparr>"
  have 1: "''OKTA SMS'' = IdentifierSmsMfa \<or> ''OKTA SMS'' = IdentifierTotpMfa"
    by (simp add: IdentifierSmsMfa_def)
  have 2: "NewRequest ?W ''POST'' ''https://x/verify''
      (VerifyJSON \<lparr>StateToken = ''st1'', PassCode = []\<rparr>) = Inr (?req [])"
    by (simp add: NewRequest_def scripted_def)
  have 3: "client_Do ?W [Do authn_post]
      (Header_Add (Header_Add (?req []) ''Content-Type'' ''application/json'')
         ''Accept'' ''application/json'') = Inr (json_response JNull)"
    by (simp add: scripted_def index_def sms_script_def)
  have 4: "NewRequest ?W ''POST'' ''https://x/verify''
      (VerifyJSON \<lparr>StateToken = ''st1'',
         PassCode = prompt_StringRequired ?W ''Enter verification code''\<rparr>) = Inr (?req ''123456'')"
    by (simp add: NewRequest_def scripted_def)
  have 5: "client_Do ?W
      ([Do authn_post] @
       [Do (Header_Add (Header_Add (?req []) ''Content-Type'' ''application/json'')
              ''Accept'' ''application/json''),
        StringRequired ''Enter verification code''])
      (Header_Add (Header_Add (?req ''123456'') ''Content-Type'' ''application/json'')
         ''Accept'' ''application/json'') =
      Inr (json_response (obj [(''sessionToken'', JString ''tok2'')]))"
    by (simp add: scripted_def index_def sms_script_def)
  have "mfa_verify ?W ''x.okta.com'' ''https://x.okta.com'' ''st1'' ''f1''
     ''https://x/verify'' ''OKTA SMS'' [Do authn_post] =
     Some (session_redirect ?W ''x.okta.com'' ''https://x.okta.com''
       (fst (ReadAll (json_response (obj [(''sessionToken'', JString ''tok2'')]))))
       ([Do authn_post] @
        [Do (Header_Add (Header_Add (?req []) ''Content-Type'' ''application/json'')
               ''Accept'' ''application/json''),
         StringRequired ''Enter verification code'',
         Do (Header_Add (Header_Add (?req ''123456'') ''Content-Type'' ''application/json'')
               ''Accept'' ''application/json'')]))"
    using sms_totp_two_verify_calls [OF 1 2 3 4 5] by (rule conjunct1)
  also have "\<dots> = Some (Return ''YXNzZXJ0aW9u'' None,
     [Do authn_post, Do (verify_post []), StringRequired ''Enter verification code'',
      Do (verify_post ''123456''), Do (redirect_get ''tok2'')])"
    by code_simp
  finally show ?thesis .
qed

text \<open>Scenario B from the start.\<close>

lemma scenario_B:
  "Authenticate (scripted sms_script 0 ''123456'') login =
   Some (Return ''YXNzZXJ0aW9u'' None,
     [Do authn_post, Do (verify_post []), StringRequired ''Enter verification code'',
      Do (verify_post ''123456''), Do (redirect_get ''tok2'')])"
  by code_simp

subsection \<open>A signature without a colon\<close>

text \<open>
  Element 0 of the split list always exists; element 1 exists exactly when the
  signature has a colon.
\<close>

lemma signature_index_1:
  "index (Split s sep) 1 = None \<longleftrightarrow> sep \<notin> set s"
  by (auto simp: index_def length_Split filter_empty_conv Suc_lessI)

text \<open>
  Claim C10. The claim says that both accesses are within bounds for every signature.
  For the signature \<open>AAA\<close> the split list has one element, and the run, in which Duo
  approves at once, panics when it builds the callback.
\<close>

theorem signature_without_colon_panics:
  "index (Split ''AAA'' CHR '':'') 1 = None \<and>
   map_option fst (Authenticate (scripted (duo_script ''AAA''
       [duo_status_body ''SUCCESS'' ''c1'']) 1 []) login) = Some Panic"
  by code_simp

end
